theory Spec2Isabelle
  imports Complex_Main
begin

section \<open>Data model\<close>

text \<open>
  A pandas cell is either a string or a float64. The missing marker of pandas is the
  float NaN, so \<open>F NaN\<close> is the one missing value. Finite floats are idealised as
  reals (rounding is not modelled); the two infinities are kept, since \<open>dropna\<close>
  and the scaler treat them differently from NaN. Integer cells are represented by
  their value.
\<close>

datatype float64 = NaN | Fin real | PInf | NInf

datatype cell = S string | F float64

definition isna :: "cell \<Rightarrow> bool" where
  "isna c = (c = F NaN)"

text \<open>
  A DataFrame: the column labels and the rows, in order. A row shorter than the header
  reads as missing in the columns it lacks, as \<open>read_csv\<close> fills short lines.
\<close>

record dataframe =
  columns :: "string list"
  rows :: "cell list list"

datatype error =
    KeyError string
  | TypeError
  | AttributeError
  | ValueError string
  | OverflowError

definition bind_err :: "error + 'a \<Rightarrow> ('a \<Rightarrow> error + 'b) \<Rightarrow> error + 'b" where
  "bind_err m f = (case m of Inl e \<Rightarrow> Inl e | Inr x \<Rightarrow> f x)"

text \<open>
  Library code that the program calls and that is outside the repository is a parameter
  of the model: the number parser of \<open>pd.to_numeric\<close> (NaN for a string it cannot
  read, as \<open>errors='coerce'\<close> asks), Python's \<open>str\<close> of a float, numpy's conversion
  of a string to a float (None where it raises), and the random forest:
  \<open>RandomForestClassifier(n_estimators=100, random_state=42,
  class_weight='balanced').fit(X, y)\<close>, which raises or returns a predictor. A feature
  value is a float that is not infinite, None standing for NaN.
\<close>

type_synonym predictor = "real option list list \<Rightarrow> error + nat list"

record pylib =
  parse_numeric :: "string \<Rightarrow> float64"
  str_of_float :: "float64 \<Rightarrow> string"
  float_of_str :: "string \<Rightarrow> float64 option"
  rf_fit :: "real option list list \<Rightarrow> nat list \<Rightarrow> error + predictor"

section \<open>Column access\<close>

definition positions :: "string list \<Rightarrow> string \<Rightarrow> nat list" where
  "positions cols name = filter (\<lambda>i. cols ! i = name) [0..<length cols]"

definition cell_at :: "cell list \<Rightarrow> nat \<Rightarrow> cell" where
  "cell_at r i = (if i < length r then r ! i else F NaN)"

definition set_cell :: "nat \<Rightarrow> cell \<Rightarrow> cell list \<Rightarrow> cell list" where
  "set_cell i v r = (r @ replicate (Suc i - length r) (F NaN))[i := v]"

text \<open>
  \<open>df[name]\<close> used as a Series: a KeyError when no column has the label; when several
  have it pandas returns a DataFrame, and the call made on it raises the error \<open>e\<close>.
\<close>

definition getitem :: "dataframe \<Rightarrow> string \<Rightarrow> error \<Rightarrow> error + nat" where
  "getitem df name e =
     (case positions (columns df) name of
        [] \<Rightarrow> Inl (KeyError name)
      | [i] \<Rightarrow> Inr i
      | _ \<Rightarrow> Inl e)"

definition map_column :: "nat \<Rightarrow> (cell \<Rightarrow> cell) \<Rightarrow> dataframe \<Rightarrow> dataframe" where
  "map_column i f df = df\<lparr>rows := map (\<lambda>r. set_cell i (f (cell_at r i)) r) (rows df)\<rparr>"

section \<open>Loader/Cleaner: \<open>load_data\<close>, lines 34 to 40\<close>

text \<open>Python's \<open>str.isspace\<close> on the ASCII range.\<close>

definition is_space :: "char \<Rightarrow> bool" where
  "is_space c = (let n = (of_char c :: nat) in (9 \<le> n \<and> n \<le> 13) \<or> (28 \<le> n \<and> n \<le> 32))"

definition strip :: "string \<Rightarrow> string" where
  "strip s = rev (dropWhile is_space (rev (dropWhile is_space s)))"

definition lower_char :: "char \<Rightarrow> char" where
  "lower_char c =
     (let n = (of_char c :: nat) in if 65 \<le> n \<and> n \<le> 90 then char_of (n + 32) else c)"

definition lower :: "string \<Rightarrow> string" where
  "lower s = map lower_char s"

definition replace_space :: "string \<Rightarrow> string" where
  "replace_space s = map (\<lambda>c. if c = CHR '' '' then CHR ''_'' else c) s"

text \<open>Line 34: \<open>df.columns.str.strip().str.lower().str.replace(' ', '_')\<close>.\<close>

definition normalize_column :: "string \<Rightarrow> string" where
  "normalize_column s = replace_space (lower (strip s))"

text \<open>Lines 35 and 36: \<open>pd.to_numeric(..., errors='coerce')\<close> on one cell.\<close>

definition to_numeric :: "pylib \<Rightarrow> cell \<Rightarrow> cell" where
  "to_numeric L c = (case c of S s \<Rightarrow> F (parse_numeric L s) | F x \<Rightarrow> F x)"

text \<open>Line 37: \<open>.astype(str).str.strip()\<close> on one cell.\<close>

definition astype_str :: "pylib \<Rightarrow> cell \<Rightarrow> string" where
  "astype_str L c = (case c of S s \<Rightarrow> s | F x \<Rightarrow> str_of_float L x)"

definition clean_location :: "pylib \<Rightarrow> cell \<Rightarrow> cell" where
  "clean_location L c = S (strip (astype_str L c))"

text \<open>
  \<open>dropna(subset=...)\<close>: a KeyError when a label of the subset is no column; a row is
  kept when none of its cells under the subset's labels is missing.
\<close>

definition subset_positions :: "string list \<Rightarrow> string list \<Rightarrow> nat list" where
  "subset_positions cols labels = concat (map (positions cols) labels)"

definition missing_labels :: "string list \<Rightarrow> string list \<Rightarrow> string list" where
  "missing_labels cols labels = filter (\<lambda>n. positions cols n = []) labels"

definition dropna :: "dataframe \<Rightarrow> string list \<Rightarrow> error + dataframe" where
  "dropna df labels =
     (case missing_labels (columns df) labels of
        n # _ \<Rightarrow> Inl (KeyError n)
      | [] \<Rightarrow>
          Inr (df\<lparr>rows :=
            filter (\<lambda>r. \<forall>i \<in> set (subset_positions (columns df) labels). \<not> isna (cell_at r i))
              (rows df)\<rparr>))"

text \<open>
  \<open>drop_duplicates(subset=...)\<close>, keeping the first row of each key; the key of a row
  is the list of its cells under the subset's labels.
\<close>

definition row_key :: "string list \<Rightarrow> string list \<Rightarrow> cell list \<Rightarrow> cell list" where
  "row_key cols labels r = map (cell_at r) (subset_positions cols labels)"

fun keep_first :: "('r \<Rightarrow> 'k) \<Rightarrow> 'k list \<Rightarrow> 'r list \<Rightarrow> 'r list" where
  "keep_first key seen [] = []"
| "keep_first key seen (r # rs) =
     (if key r \<in> set seen then keep_first key seen rs
      else r # keep_first key (key r # seen) rs)"

definition drop_duplicates :: "dataframe \<Rightarrow> string list \<Rightarrow> error + dataframe" where
  "drop_duplicates df labels =
     (case missing_labels (columns df) labels of
        n # _ \<Rightarrow> Inl (KeyError n)
      | [] \<Rightarrow> Inr (df\<lparr>rows := keep_first (row_key (columns df) labels) [] (rows df)\<rparr>))"

definition clean :: "pylib \<Rightarrow> dataframe \<Rightarrow> error + dataframe" where
  "clean L df0 =
     (let df1 = df0\<lparr>columns := map normalize_column (columns df0)\<rparr> in
      bind_err (getitem df1 ''longitude'' TypeError) (\<lambda>lon.
      let df2 = map_column lon (to_numeric L) df1 in
      bind_err (getitem df2 ''latitude'' TypeError) (\<lambda>lat.
      let df3 = map_column lat (to_numeric L) df2 in
      bind_err (getitem df3 ''location'' AttributeError) (\<lambda>loc.
      let df4 = map_column loc (clean_location L) df3 in
      bind_err (dropna df4 [''crime_id'', ''crime_type'', ''latitude'', ''longitude'']) (\<lambda>df5.
      drop_duplicates df5 [''crime_id''])))))"

text \<open>
  What the claims say about a cleaned table: the identifier of a row is what
  \<open>drop_duplicates\<close> compares, its coordinates are the cells under the two coordinate
  labels.
\<close>

definition required :: "string list" where
  "required = [''crime_id'', ''crime_type'', ''latitude'', ''longitude'']"

definition incident_id :: "dataframe \<Rightarrow> cell list \<Rightarrow> cell list" where
  "incident_id df r = row_key (columns df) [''crime_id''] r"

definition coordinates :: "dataframe \<Rightarrow> cell list \<Rightarrow> cell list" where
  "coordinates df r = row_key (columns df) [''latitude'', ''longitude''] r"

fun is_number :: "cell \<Rightarrow> bool" where
  "is_number (F NaN) = False"
| "is_number (F _) = True"
| "is_number (S _) = False"

fun is_finite :: "cell \<Rightarrow> bool" where
  "is_finite (F (Fin _)) = True"
| "is_finite _ = False"

definition present_coordinates :: "dataframe \<Rightarrow> bool" where
  "present_coordinates df = (\<forall>r \<in> set (rows df). list_all is_number (coordinates df r))"

definition finite_coordinates :: "dataframe \<Rightarrow> bool" where
  "finite_coordinates df = (\<forall>r \<in> set (rows df). list_all is_finite (coordinates df r))"

definition trimmed :: "string \<Rightarrow> bool" where
  "trimmed s = (s = [] \<or> (\<not> is_space (hd s) \<and> \<not> is_space (last s)))"

definition cleaned_row :: "nat \<Rightarrow> nat \<Rightarrow> nat \<Rightarrow> cell list \<Rightarrow> bool" where
  "cleaned_row lon lat loc r =
     (lon < length r \<and> lat < length r \<and> loc < length r \<and>
      (\<exists>x. r ! lon = F x) \<and> (\<exists>y. r ! lat = F y) \<and> (\<exists>s. r ! loc = S (strip s)))"

section \<open>Category Collapser: \<open>train_model\<close>, lines 45 and 46\<close>

text \<open>
  \<open>value_counts()\<close> counts the values that are not missing; \<open>rare\<close> is the index of
  the counts below 1000.
\<close>

definition present :: "cell list \<Rightarrow> cell list" where
  "present col = filter (\<lambda>c. \<not> isna c) col"

definition uniques :: "cell list \<Rightarrow> cell list" where
  "uniques col = keep_first (\<lambda>c. c) [] col"

definition rare :: "cell list \<Rightarrow> cell list" where
  "rare col = filter (\<lambda>c. count_list col c < 1000) (uniques (present col))"

definition collapse_label :: "cell list \<Rightarrow> cell \<Rightarrow> cell" where
  "collapse_label col x = (if x \<in> set (rare col) then S ''Other'' else x)"

definition collapse :: "cell list \<Rightarrow> cell list" where
  "collapse col = map (collapse_label col) col"

section \<open>Label encoder\<close>

text \<open>
  Python's order on the values of one column: strings by code point, floats by value.
  Sorting a column that holds both a string and a number raises a TypeError.
\<close>

fun str_le :: "string \<Rightarrow> string \<Rightarrow> bool" where
  "str_le [] t = True"
| "str_le (a # s) [] = False"
| "str_le (a # s) (b # t) =
     ((of_char a :: nat) < of_char b \<or> (a = b \<and> str_le s t))"

fun float_le :: "float64 \<Rightarrow> float64 \<Rightarrow> bool" where
  "float_le NInf y = True"
| "float_le x PInf = True"
| "float_le (Fin a) (Fin b) = (a \<le> b)"
| "float_le x y = False"

fun cell_le :: "cell \<Rightarrow> cell \<Rightarrow> bool" where
  "cell_le (S s) (S t) = str_le s t"
| "cell_le (F x) (F y) = float_le x y"
| "cell_le x y = False"

fun insert_sorted :: "cell \<Rightarrow> cell list \<Rightarrow> cell list" where
  "insert_sorted x [] = [x]"
| "insert_sorted x (y # ys) = (if cell_le x y then x # y # ys else y # insert_sorted x ys)"

definition sorted_cells :: "cell list \<Rightarrow> cell list" where
  "sorted_cells xs = foldr insert_sorted xs []"

fun is_str :: "cell \<Rightarrow> bool" where
  "is_str (S s) = True"
| "is_str (F x) = False"

definition sortable :: "cell list \<Rightarrow> bool" where
  "sortable xs = (list_all is_str xs \<or> list_all (\<lambda>c. \<not> is_str c) xs)"

record label_encoder =
  classes :: "cell list"

text \<open>
  \<open>LabelEncoder.fit\<close>: the classes are the distinct values that are not missing, sorted,
  followed by the missing value when the column has one.
\<close>

definition le_fit :: "cell list \<Rightarrow> error + label_encoder" where
  "le_fit col =
     (let vals = uniques (present col) in
      if \<not> sortable vals then Inl TypeError
      else Inr \<lparr>classes = sorted_cells vals @ (if list_ex isna col then [F NaN] else [])\<rparr>)"

fun index_of :: "cell list \<Rightarrow> cell \<Rightarrow> nat" where
  "index_of [] x = 0"
| "index_of (c # cs) x = (if c = x then 0 else Suc (index_of cs x))"

definition unseen_labels :: error where
  "unseen_labels = ValueError ''y contains previously unseen labels''"

text \<open>\<open>LabelEncoder.transform\<close>: a value that is no class raises; it gets no code.\<close>

definition le_transform :: "label_encoder \<Rightarrow> cell list \<Rightarrow> error + nat list" where
  "le_transform enc ys =
     (if list_ex (\<lambda>y. y \<notin> set (classes enc)) ys then Inl unseen_labels
      else Inr (map (index_of (classes enc)) ys))"

definition le_fit_transform :: "cell list \<Rightarrow> error + (label_encoder \<times> nat list)" where
  "le_fit_transform col =
     bind_err (le_fit col) (\<lambda>enc.
     bind_err (le_transform enc col) (\<lambda>codes. Inr (enc, codes)))"

text \<open>\<open>LabelEncoder.inverse_transform\<close>: an id that is no index of a class raises.\<close>

definition le_inverse_transform :: "label_encoder \<Rightarrow> nat list \<Rightarrow> error + cell list" where
  "le_inverse_transform enc ids =
     (if list_ex (\<lambda>i. length (classes enc) \<le> i) ids then Inl unseen_labels
      else Inr (map (\<lambda>i. classes enc ! i) ids))"

section \<open>The mode of a column\<close>

text \<open>
  \<open>col.mode()[0]\<close>: the most frequent value that is not missing; among several, the
  least when they can be sorted, and the first met otherwise. A column with no value
  has no mode, and position 0 of the empty result raises a KeyError.
\<close>

definition modes :: "cell list \<Rightarrow> cell list" where
  "modes col =
     (let vals = uniques (present col) in
      filter (\<lambda>v. \<forall>w \<in> set vals. count_list col w \<le> count_list col v) vals)"

definition mode0 :: "cell list \<Rightarrow> error + cell" where
  "mode0 col =
     (case (if sortable (modes col) then sorted_cells (modes col) else modes col) of
        [] \<Rightarrow> Inl (KeyError ''0'')
      | v # _ \<Rightarrow> Inr v)"

section \<open>Standard scaler\<close>

text \<open>
  The scaler works on the columns of a float matrix. Its input check rejects an
  infinity, then a matrix with no row; NaN is let through and ignored by the fit.
\<close>

fun map_err :: "('a \<Rightarrow> error + 'b) \<Rightarrow> 'a list \<Rightarrow> error + 'b list" where
  "map_err f [] = Inr []"
| "map_err f (x # xs) =
     bind_err (f x) (\<lambda>y. bind_err (map_err f xs) (\<lambda>ys. Inr (y # ys)))"

definition as_float :: "pylib \<Rightarrow> cell \<Rightarrow> error + float64" where
  "as_float L c =
     (case c of
        F x \<Rightarrow> Inr x
      | S s \<Rightarrow>
          (case float_of_str L s of
             None \<Rightarrow> Inl (ValueError ''could not convert string to float'')
           | Some x \<Rightarrow> Inr x))"

fun not_infinite :: "float64 \<Rightarrow> bool" where
  "not_infinite PInf = False"
| "not_infinite NInf = False"
| "not_infinite x = True"

fun feature_value :: "float64 \<Rightarrow> real option" where
  "feature_value (Fin x) = Some x"
| "feature_value x = None"

definition check_array :: "float64 list list \<Rightarrow> error + real option list list" where
  "check_array X =
     (if \<not> list_all (list_all not_infinite) X then Inl (ValueError ''Input contains infinity'')
      else if list_all (\<lambda>c. c = []) X then Inl (ValueError ''Found array with 0 sample(s)'')
      else Inr (map (map feature_value) X))"

text \<open>The fitted attributes \<open>mean_\<close> and \<open>scale_\<close>, one entry for each column.\<close>

record standard_scaler =
  fitted_mean :: "real option list"
  fitted_scale :: "real option list"

definition observed :: "real option list \<Rightarrow> real list" where
  "observed xs = concat (map (\<lambda>x. case x of None \<Rightarrow> [] | Some v \<Rightarrow> [v]) xs)"

definition nanmean :: "real option list \<Rightarrow> real option" where
  "nanmean xs =
     (let vs = observed xs in
      if vs = [] then None else Some (sum_list vs / real (length vs)))"

definition nanvar :: "real option list \<Rightarrow> real option" where
  "nanvar xs =
     (case nanmean xs of
        None \<Rightarrow> None
      | Some m \<Rightarrow>
          (let vs = observed xs in
           Some (sum_list (map (\<lambda>v. (v - m) * (v - m)) vs) / real (length vs))))"

definition column_scale :: "real option list \<Rightarrow> real option" where
  "column_scale xs =
     (case nanvar xs of
        None \<Rightarrow> None
      | Some v \<Rightarrow> Some (if v = 0 then 1 else sqrt v))"

definition standardize :: "real option \<Rightarrow> real option \<Rightarrow> real option \<Rightarrow> real option" where
  "standardize m s x =
     (case x of
        None \<Rightarrow> None
      | Some v \<Rightarrow>
          (case m of
             None \<Rightarrow> None
           | Some mv \<Rightarrow> (case s of None \<Rightarrow> None | Some sv \<Rightarrow> Some ((v - mv) / sv))))"

definition scaler_fit :: "float64 list list \<Rightarrow> error + standard_scaler" where
  "scaler_fit X =
     bind_err (check_array X) (\<lambda>cols.
     Inr \<lparr>fitted_mean = map nanmean cols, fitted_scale = map column_scale cols\<rparr>)"

definition scaler_transform :: "standard_scaler \<Rightarrow> float64 list list \<Rightarrow> error + real option list list" where
  "scaler_transform sc X =
     bind_err (check_array X) (\<lambda>cols.
     if length cols \<noteq> length (fitted_mean sc)
     then Inl (ValueError ''X has a different number of features'')
     else Inr (map (\<lambda>(c, m, s). map (standardize m s) c) (zip cols (zip (fitted_mean sc) (fitted_scale sc)))))"

definition scaler_fit_transform ::
  "float64 list list \<Rightarrow> error + (standard_scaler \<times> real option list list)" where
  "scaler_fit_transform X =
     bind_err (scaler_fit X) (\<lambda>sc.
     bind_err (scaler_transform sc X) (\<lambda>XS. Inr (sc, XS)))"

section \<open>Classifier Trainer: \<open>train_model\<close>, lines 43 to 63\<close>

definition features :: "string list" where
  "features = [''longitude'', ''latitude'', ''reported_by'', ''falls_within'', ''last_outcome_category'']"

definition column :: "dataframe \<Rightarrow> nat \<Rightarrow> cell list" where
  "column df i = map (\<lambda>r. cell_at r i) (rows df)"

definition set_column :: "nat \<Rightarrow> cell list \<Rightarrow> dataframe \<Rightarrow> dataframe" where
  "set_column i vs df = df\<lparr>rows := map (\<lambda>(r, v). set_cell i v r) (zip (rows df) vs)\<rparr>"

text \<open>
  The encoded feature matrix, row by row, in the order of \<open>features\<close>.
\<close>

definition feature_rows ::
  "real option list \<Rightarrow> real option list \<Rightarrow> nat list \<Rightarrow> nat list \<Rightarrow> nat list \<Rightarrow> real option list list" where
  "feature_rows lons lats rb fw oc =
     map (\<lambda>(x, y, a, b, c). [x, y, Some (real a), Some (real b), Some (real c)])
       (zip lons (zip lats (zip rb (zip fw oc))))"

record trained =
  rf :: predictor
  le_target :: label_encoder
  scaler :: standard_scaler
  label_encoders :: "(string \<times> label_encoder) list"
  X_columns :: "string list"
  df_model :: dataframe

text \<open>
  \<open>train_model\<close> is called on the result of \<open>load_data\<close> only (line 174). Selecting the
  features raises a KeyError for a label that is no column. A feature label that names
  several columns cannot be used as one column; the model makes that a ValueError.
\<close>

definition select_features :: "dataframe \<Rightarrow> error + nat list" where
  "select_features df =
     (case missing_labels (columns df) features of
        n # _ \<Rightarrow> Inl (KeyError n)
      | [] \<Rightarrow> map_err (\<lambda>n. getitem df n (ValueError ''bad input shape'')) features)"

definition train_model :: "pylib \<Rightarrow> dataframe \<Rightarrow> error + trained" where
  "train_model L df =
     bind_err (dropna df [''lsoa_code'', ''lsoa_name'']) (\<lambda>dm0.
     bind_err (getitem dm0 ''crime_type'' TypeError) (\<lambda>ct.
     let dm = set_column ct (collapse (column dm0 ct)) dm0 in
     bind_err (select_features dm) (\<lambda>ps.
     case ps of
       [lon, lat, rb, fw, oc] \<Rightarrow>
         bind_err (le_fit_transform (column dm rb)) (\<lambda>(le_rb, c_rb).
         bind_err (le_fit_transform (column dm fw)) (\<lambda>(le_fw, c_fw).
         bind_err (le_fit_transform (column dm oc)) (\<lambda>(le_oc, c_oc).
         bind_err (map_err (as_float L) (column dm lon)) (\<lambda>lons.
         bind_err (map_err (as_float L) (column dm lat)) (\<lambda>lats.
         bind_err (scaler_fit_transform [lons, lats]) (\<lambda>(sc, XS).
         case XS of
           [xs, ys] \<Rightarrow>
             bind_err (le_fit_transform (column dm ct)) (\<lambda>(le_y, y_enc).
             bind_err (rf_fit L (feature_rows xs ys c_rb c_fw c_oc) y_enc) (\<lambda>forest.
             Inr \<lparr>rf = forest, le_target = le_y, scaler = sc,
                  label_encoders =
                    [(''reported_by'', le_rb), (''falls_within'', le_fw),
                     (''last_outcome_category'', le_oc)],
                  X_columns = features, df_model = dm\<rparr>))
         | _ \<Rightarrow> Inl (ValueError ''bad input shape'')))))))
     | _ \<Rightarrow> Inl (ValueError ''bad input shape''))))"

section \<open>Future Scenario Generator: \<open>main\<close>, lines 174 to 194\<close>

text \<open>
  The process-wide numpy generator is modelled by the sequence of the unit samples it
  will return next, each in the half-open interval from 0 to 1. The program never seeds
  it, so its state where the period loop starts is an input of the model.
  \<open>np.random.uniform(low, high, n)\<close> takes the next \<open>n\<close> unit samples \<open>u\<close>, returns
  \<open>low + (high - low) * u\<close> for each, and leaves the generator after them.
\<close>

type_synonym generator = "nat \<Rightarrow> real"

definition unit_samples :: "generator \<Rightarrow> bool" where
  "unit_samples g = (\<forall>i. 0 \<le> g i \<and> g i < 1)"

definition uniform :: "real \<Rightarrow> real \<Rightarrow> nat \<Rightarrow> generator \<Rightarrow> real list \<times> generator" where
  "uniform low high n g = (map (\<lambda>i. low + (high - low) * g i) [0..<n], (\<lambda>i. g (i + n)))"

definition n_samples :: nat where
  "n_samples = 5000"

definition periods :: "nat list" where
  "periods = [1..<7]"

text \<open>
  Lines 176 and 177: the least and the greatest value of a coordinate column of the
  training subset. After \<open>load_data\<close> and a \<open>train_model\<close> that returned, every cell
  of the column is a finite float; the other branches are there to make the function
  total.
\<close>

fun finite_float :: "cell \<Rightarrow> error + real" where
  "finite_float (F (Fin x)) = Inr x"
| "finite_float c = Inl TypeError"

definition column_bounds :: "dataframe \<Rightarrow> string \<Rightarrow> error + (real \<times> real)" where
  "column_bounds df name =
     bind_err (getitem df name TypeError) (\<lambda>i.
     bind_err (map_err finite_float (column df i)) (\<lambda>vs.
     case vs of
       [] \<Rightarrow> Inl OverflowError
     | v # ws \<Rightarrow> Inr (fold min ws v, fold max ws v)))"

record bounding_box =
  lon_min :: real
  lon_max :: real
  lat_min :: real
  lat_max :: real

definition bounding_box_of :: "dataframe \<Rightarrow> error + bounding_box" where
  "bounding_box_of dm =
     bind_err (column_bounds dm ''longitude'') (\<lambda>(lo, hi).
     bind_err (column_bounds dm ''latitude'') (\<lambda>(la_lo, la_hi).
     Inr \<lparr>lon_min = lo, lon_max = hi, lat_min = la_lo, lat_max = la_hi\<rparr>))"

text \<open>Lines 180 and 181: the two draws of one period, longitudes first.\<close>

definition draw_coordinates ::
  "bounding_box \<Rightarrow> generator \<Rightarrow> real list \<times> real list \<times> generator" where
  "draw_coordinates b g =
     (let (random_lons, g1) = uniform (lon_min b) (lon_max b) n_samples g;
          (random_lats, g2) = uniform (lat_min b) (lat_max b) n_samples g1
      in (random_lons, random_lats, g2))"

text \<open>
  Lines 185 to 187: \<open>label_encoders[name].transform([df_model[name].mode()[0]] * 5000)\<close>.
\<close>

definition modal_codes :: "label_encoder \<Rightarrow> cell list \<Rightarrow> error + nat list" where
  "modal_codes enc col =
     bind_err (mode0 col) (\<lambda>v. le_transform enc (replicate n_samples v))"

definition modal_feature :: "trained \<Rightarrow> string \<Rightarrow> error + nat list" where
  "modal_feature t name =
     (case map_of (label_encoders t) name of
        None \<Rightarrow> Inl (KeyError name)
      | Some enc \<Rightarrow>
          bind_err (getitem (df_model t) name TypeError) (\<lambda>i.
          modal_codes enc (column (df_model t) i)))"

text \<open>
  A row of the batch \<open>df_f\<close>. After line 190 its two coordinates are the standardized
  ones.
\<close>

record future_incident =
  longitude :: "real option"
  latitude :: "real option"
  reported_by :: nat
  falls_within :: nat
  last_outcome_category :: nat
  simulated_month :: nat
  predicted_crime_type :: cell

definition batch_rows ::
  "real option list \<Rightarrow> real option list \<Rightarrow> nat list \<Rightarrow> nat list \<Rightarrow> nat list \<Rightarrow> nat \<Rightarrow>
   cell list \<Rightarrow> future_incident list" where
  "batch_rows xs ys rb fw oc m labels =
     map (\<lambda>(x, y, a, b, c, l).
            \<lparr>longitude = x, latitude = y, reported_by = a, falls_within = b,
             last_outcome_category = c, simulated_month = m, predicted_crime_type = l\<rparr>)
       (zip xs (zip ys (zip rb (zip fw (zip oc labels)))))"

definition period ::
  "trained \<Rightarrow> bounding_box \<Rightarrow> nat \<Rightarrow> generator \<Rightarrow> error + (future_incident list \<times> generator)" where
  "period t b m g =
     (case draw_coordinates b g of (random_lons, random_lats, g') \<Rightarrow>
      bind_err (modal_feature t ''reported_by'') (\<lambda>rb.
      bind_err (modal_feature t ''falls_within'') (\<lambda>fw.
      bind_err (modal_feature t ''last_outcome_category'') (\<lambda>oc.
      bind_err (scaler_transform (scaler t) [map Fin random_lons, map Fin random_lats]) (\<lambda>XS.
      case XS of
        [xs, ys] \<Rightarrow>
          bind_err (rf t (feature_rows xs ys rb fw oc)) (\<lambda>preds.
          bind_err (le_inverse_transform (le_target t) preds) (\<lambda>labels.
          if length labels \<noteq> n_samples
          then Inl (ValueError ''Length of values does not match length of index'')
          else Inr (batch_rows xs ys rb fw oc m labels, g')))
      | _ \<Rightarrow> Inl (ValueError ''bad input shape''))))))"

fun future_loop ::
  "trained \<Rightarrow> bounding_box \<Rightarrow> nat list \<Rightarrow> generator \<Rightarrow>
   error + (future_incident list list \<times> generator)" where
  "future_loop t b [] g = Inr ([], g)"
| "future_loop t b (m # ms) g =
     bind_err (period t b m g) (\<lambda>(df_f, g').
     bind_err (future_loop t b ms g') (\<lambda>(future_list, g'').
     Inr (df_f # future_list, g'')))"

text \<open>Lines 174 to 194 on a trained model: the bounding box, the loop, the concatenation.\<close>

definition predict_future :: "trained \<Rightarrow> generator \<Rightarrow> error + (future_incident list \<times> generator)" where
  "predict_future t g =
     bind_err (bounding_box_of (df_model t)) (\<lambda>b.
     bind_err (future_loop t b periods g) (\<lambda>(future_list, g').
     Inr (concat future_list, g')))"

text \<open>
  The prediction tab of \<open>main\<close> from the raw table on: line 67, then lines 174 to 194.
  The code of the two other tabs, which only displays the cleaned table, is left out.
\<close>

definition main :: "pylib \<Rightarrow> dataframe \<Rightarrow> generator \<Rightarrow> error + (future_incident list \<times> generator)" where
  "main L raw g =
     bind_err (clean L raw) (\<lambda>df.
     bind_err (train_model L df) (\<lambda>t.
     predict_future t g))"

section \<open>Aggregator: \<open>main\<close>, line 216\<close>

text \<open>
  \<open>groupby(['simulated_month', 'predicted_crime_type']).size().unstack(fill_value=0)\<close>:
  one row for each month, one column for each predicted category that is not missing
  (\<open>groupby\<close> drops the rows with a missing key), and in each entry the number of rows
  of the group, 0 when there is none.
\<close>

definition pivot_index :: "future_incident list \<Rightarrow> nat list" where
  "pivot_index fut = sort (remdups (map simulated_month fut))"

definition pivot_columns :: "future_incident list \<Rightarrow> cell list" where
  "pivot_columns fut = uniques (present (map predicted_crime_type fut))"

definition pivot :: "future_incident list \<Rightarrow> nat \<Rightarrow> cell \<Rightarrow> nat" where
  "pivot fut m c =
     length (filter (\<lambda>r. simulated_month r = m \<and> predicted_crime_type r = c) fut)"

definition pivot_row_sum :: "future_incident list \<Rightarrow> nat \<Rightarrow> nat" where
  "pivot_row_sum fut m = sum_list (map (pivot fut m) (pivot_columns fut))"

section \<open>Notions used to state the claims\<close>

definition categorical :: "string list" where
  "categorical = [''reported_by'', ''falls_within'', ''last_outcome_category'']"

text \<open>The classes of the target encoder of a training run, when it returned.\<close>

definition trained_classes :: "error + trained \<Rightarrow> error + cell list" where
  "trained_classes r = (case r of Inl e \<Rightarrow> Inl e | Inr t \<Rightarrow> Inr (classes (le_target t)))"

text \<open>
  \<open>lo\<close> and \<open>hi\<close> are the observed extremes of a coordinate column: both occur in
  it and every cell of it is a finite float between them.
\<close>

definition column_extremes :: "dataframe \<Rightarrow> string \<Rightarrow> real \<Rightarrow> real \<Rightarrow> bool" where
  "column_extremes dm name lo hi =
     (\<exists>i. positions (columns dm) name = [i] \<and>
          F (Fin lo) \<in> set (column dm i) \<and> F (Fin hi) \<in> set (column dm i) \<and>
          (\<forall>c \<in> set (column dm i). \<exists>v. c = F (Fin v) \<and> lo \<le> v \<and> v \<le> hi))"

definition in_box :: "bounding_box \<Rightarrow> real \<Rightarrow> real \<Rightarrow> bool" where
  "in_box b x y = (lon_min b \<le> x \<and> x \<le> lon_max b \<and> lat_min b \<le> y \<and> y \<le> lat_max b)"

text \<open>
  Line 190 replaces the sampled coordinates of a record by the standardized ones. A
  record is sampled in the box when what it stores is the standardization of a point of
  the box.
\<close>

definition scaled_longitude :: "trained \<Rightarrow> real \<Rightarrow> real option" where
  "scaled_longitude t x =
     standardize (fitted_mean (scaler t) ! 0) (fitted_scale (scaler t) ! 0) (Some x)"

definition scaled_latitude :: "trained \<Rightarrow> real \<Rightarrow> real option" where
  "scaled_latitude t y =
     standardize (fitted_mean (scaler t) ! 1) (fitted_scale (scaler t) ! 1) (Some y)"

definition sampled_in_box :: "trained \<Rightarrow> bounding_box \<Rightarrow> future_incident \<Rightarrow> bool" where
  "sampled_in_box t b r =
     (\<exists>x y. in_box b x y \<and> longitude r = scaled_longitude t x \<and> latitude r = scaled_latitude t y)"

definition returns :: "error + 'a \<Rightarrow> bool" where
  "returns r = (case r of Inl e \<Rightarrow> False | Inr x \<Rightarrow> True)"

definition collection_of ::
  "error + (future_incident list \<times> generator) \<Rightarrow> error + future_incident list" where
  "collection_of r = (case r of Inl e \<Rightarrow> Inl e | Inr (fut, g) \<Rightarrow> Inr fut)"

text \<open>
  The z-score of a coordinate against a training column: the standardization by that
  column's mean and standard deviation.
\<close>

definition z_score :: "float64 list \<Rightarrow> real \<Rightarrow> real option" where
  "z_score train x =
     standardize (nanmean (map feature_value train)) (column_scale (map feature_value train))
       (Some x)"

text \<open>
  The codes a period stores for a categorical feature are 5000 times the code, under the
  encoder, of the mode of the column.
\<close>

definition coded_mode :: "label_encoder \<Rightarrow> cell list \<Rightarrow> nat list \<Rightarrow> bool" where
  "coded_mode enc col codes =
     (\<exists>v. mode0 col = Inr v \<and> v \<in> set (classes enc) \<and>
          codes = replicate n_samples (index_of (classes enc) v))"

text \<open>
  A batch is computed from the fitted state: its coordinates are the z-scores of the
  period's draws against the training coordinates, and its categorical codes are those of
  the training modes under the training encoders.
\<close>

definition fitted_batch ::
  "trained \<Rightarrow> float64 list \<Rightarrow> float64 list \<Rightarrow> nat \<Rightarrow> nat \<Rightarrow> nat \<Rightarrow>
   label_encoder \<Rightarrow> label_encoder \<Rightarrow> label_encoder \<Rightarrow> real list \<Rightarrow> real list \<Rightarrow>
   future_incident list \<Rightarrow> bool" where
  "fitted_batch t lons lats rb fw oc le_rb le_fw le_oc random_lons random_lats d =
     (map longitude d = map (z_score lons) random_lons \<and>
      map latitude d = map (z_score lats) random_lats \<and>
      coded_mode le_rb (column (df_model t) rb) (map reported_by d) \<and>
      coded_mode le_fw (column (df_model t) fw) (map falls_within d) \<and>
      coded_mode le_oc (column (df_model t) oc) (map last_outcome_category d))"

section \<open>Example tables\<close>

text \<open>
  An instance of the library parameters for the examples. It reads no string as a
  number. Its classifier accepts every training set that has a row and predicts the
  class of the first training row for every input row: on a training set with a single
  class, that is the one class a fitted forest can predict.
\<close>

definition first_class_fit :: "real option list list \<Rightarrow> nat list \<Rightarrow> error + predictor" where
  "first_class_fit X y =
     (case y of
        [] \<Rightarrow> Inl (ValueError ''Found array with 0 sample(s)'')
      | c # _ \<Rightarrow> Inr (\<lambda>X'. Inr (map (\<lambda>x. c) X')))"

definition example_lib :: pylib where
  "example_lib =
     \<lparr>parse_numeric = (\<lambda>s. NaN), str_of_float = (\<lambda>x. ''nan''), float_of_str = (\<lambda>s. None),
      rf_fit = first_class_fit\<rparr>"

definition raw_example :: dataframe where
  "raw_example =
     \<lparr>columns = ['' Crime ID'', ''Crime type'', ''Latitude '', ''Longitude'', ''Location''],
      rows = [[S ''a1'', S ''Burglary'', F (Fin 53.7), F (Fin (-0.3)), S '' On or near High Street ''],
              [S ''a1'', S ''Theft'', F (Fin 53.8), F (Fin (-0.4)), S ''On or near Park''],
              [S ''b2'', S ''Theft'', S ''abc'', F (Fin (-0.4)), S ''On or near Park''],
              [F NaN, S ''Theft'', F (Fin 53.8), F (Fin (-0.4)), S ''On or near Park'']]\<rparr>"

definition cleaned_example :: dataframe where
  "cleaned_example =
     \<lparr>columns = [''crime_id'', ''crime_type'', ''latitude'', ''longitude'', ''location''],
      rows = [[S ''a1'', S ''Burglary'', F (Fin 53.7), F (Fin (-0.3)), S ''On or near High Street'']]\<rparr>"

definition raw_infinite :: dataframe where
  "raw_infinite =
     \<lparr>columns = [''Crime ID'', ''Crime type'', ''Latitude'', ''Longitude'', ''Location''],
      rows = [[S ''c3'', S ''Burglary'', F PInf, F (Fin (-0.3)), S ''On or near High Street'']]\<rparr>"

definition cleaned_infinite :: dataframe where
  "cleaned_infinite =
     \<lparr>columns = [''crime_id'', ''crime_type'', ''latitude'', ''longitude'', ''location''],
      rows = [[S ''c3'', S ''Burglary'', F PInf, F (Fin (-0.3)), S ''On or near High Street'']]\<rparr>"

text \<open>The category counts of the specification's end-to-end scenario.\<close>

definition spec_categories :: "cell list" where
  "spec_categories =
     replicate 1500 (S ''Burglary'') @ replicate 1200 (S ''Theft'') @ replicate 400 (S ''Vandalism'')"

definition example_target :: "cell list" where
  "example_target = [S ''Theft'', S ''Burglary'', S ''Other'', S ''Theft'']"

definition example_le_target :: label_encoder where
  "example_le_target = \<lparr>classes = [S ''Burglary'', S ''Other'', S ''Theft'']\<rparr>"

text \<open>
  A raw table with the columns of the police data set. Its third row has no statistical
  area; every category occurs fewer than 1000 times.
\<close>

definition raw_training :: dataframe where
  "raw_training =
     \<lparr>columns = [''Crime ID'', ''Month'', ''Reported by'', ''Falls within'', ''Longitude'',
                 ''Latitude'', ''Location'', ''LSOA code'', ''LSOA name'', ''Crime type'',
                 ''Last outcome category'', ''Context''],
      rows = [[S ''a1'', S ''2022-05'', S ''Humberside Police'', S ''Humberside Police'',
               F (Fin (-1.3)), F (Fin 52.7), S ''On or near High Street'', S ''E01012756'',
               S ''Kingston upon Hull 029A'', S ''Burglary'', S ''Under investigation'', F NaN],
              [S ''b2'', S ''2022-05'', S ''Humberside Police'', S ''Humberside Police'',
               F (Fin 0.7), F (Fin 54.7), S ''On or near Park Road'', S ''E01012757'',
               S ''Kingston upon Hull 029B'', S ''Theft from the person'', F NaN, F NaN],
              [S ''c3'', S ''2022-06'', S ''Humberside Police'', S ''Humberside Police'',
               F (Fin 0.2), F (Fin 53.1), S ''On or near Mill Lane'', F NaN,
               F NaN, S ''Burglary'', S ''Under investigation'', F NaN]]\<rparr>"

definition cleaned_training :: dataframe where
  "cleaned_training =
     \<lparr>columns = [''crime_id'', ''month'', ''reported_by'', ''falls_within'', ''longitude'',
                 ''latitude'', ''location'', ''lsoa_code'', ''lsoa_name'', ''crime_type'',
                 ''last_outcome_category'', ''context''],
      rows = [[S ''a1'', S ''2022-05'', S ''Humberside Police'', S ''Humberside Police'',
               F (Fin (-1.3)), F (Fin 52.7), S ''On or near High Street'', S ''E01012756'',
               S ''Kingston upon Hull 029A'', S ''Burglary'', S ''Under investigation'', F NaN],
              [S ''b2'', S ''2022-05'', S ''Humberside Police'', S ''Humberside Police'',
               F (Fin 0.7), F (Fin 54.7), S ''On or near Park Road'', S ''E01012757'',
               S ''Kingston upon Hull 029B'', S ''Theft from the person'', F NaN, F NaN],
              [S ''c3'', S ''2022-06'', S ''Humberside Police'', S ''Humberside Police'',
               F (Fin 0.2), F (Fin 53.1), S ''On or near Mill Lane'', F NaN,
               F NaN, S ''Burglary'', S ''Under investigation'', F NaN]]\<rparr>"

definition dropped_training :: dataframe where
  "dropped_training = cleaned_training\<lparr>rows := take 2 (rows cleaned_training)\<rparr>"

definition model_frame_example :: dataframe where
  "model_frame_example =
     \<lparr>columns = [''crime_id'', ''month'', ''reported_by'', ''falls_within'', ''longitude'',
                 ''latitude'', ''location'', ''lsoa_code'', ''lsoa_name'', ''crime_type'',
                 ''last_outcome_category'', ''context''],
      rows = [[S ''a1'', S ''2022-05'', S ''Humberside Police'', S ''Humberside Police'',
               F (Fin (-1.3)), F (Fin 52.7), S ''On or near High Street'', S ''E01012756'',
               S ''Kingston upon Hull 029A'', S ''Other'', S ''Under investigation'', F NaN],
              [S ''b2'', S ''2022-05'', S ''Humberside Police'', S ''Humberside Police'',
               F (Fin 0.7), F (Fin 54.7), S ''On or near Park Road'', S ''E01012757'',
               S ''Kingston upon Hull 029B'', S ''Other'', F NaN, F NaN]]\<rparr>"

definition example_box :: bounding_box where
  "example_box = \<lparr>lon_min = -1.3, lon_max = 0.7, lat_min = 52.7, lat_max = 54.7\<rparr>"

definition halves :: generator where
  "halves = (\<lambda>i. 1 / 2)"

definition zeros :: generator where
  "zeros = (\<lambda>i. 0)"

text \<open>The cleaned example restricted to its row without a statistical area.\<close>

definition no_area_training :: dataframe where
  "no_area_training = cleaned_training\<lparr>rows := drop 2 (rows cleaned_training)\<rparr>"

section \<open>Lemmas on strings and rows\<close>

lemma dropWhile_hd: "dropWhile P s \<noteq> [] \<Longrightarrow> \<not> P (hd (dropWhile P s))"
  by (simp add: hd_dropWhile)

lemma trimmed_strip: "trimmed (strip s)"
proof -
  define t where "t = dropWhile is_space s"
  define u where "u = dropWhile is_space (rev t)"
  have su: "strip s = rev u" by (simp add: strip_def t_def u_def)
  show ?thesis
  proof (cases "u = []")
    case True then show ?thesis by (simp add: su trimmed_def)
  next
    case False
    have l: "\<not> is_space (hd u)" using False unfolding u_def by (rule dropWhile_hd)
    obtain pre where pre: "rev t = pre @ u"
      unfolding u_def by (metis takeWhile_dropWhile_id)
    then have "t = rev u @ rev pre" by (metis rev_append rev_rev_ident)
    then have "hd t = hd (rev u)" using False by simp
    moreover have "t \<noteq> []" using pre False by auto
    ultimately have "\<not> is_space (hd (rev u))"
      using dropWhile_hd[of is_space s] by (simp add: t_def)
    then show ?thesis using l False by (simp add: su trimmed_def last_rev)
  qed
qed

lemma strip_trimmed: "trimmed s \<Longrightarrow> strip s = s"
proof (cases "s = []")
  case True then show ?thesis by (simp add: strip_def)
next
  case False
  assume "trimmed s"
  then have h: "\<not> is_space (hd s)" and l: "\<not> is_space (last s)"
    using False by (simp_all add: trimmed_def)
  have 1: "dropWhile is_space s = s" using h by (simp add: dropWhile_eq_self_iff)
  have 2: "dropWhile is_space (rev s) = rev s"
    using l False by (simp add: dropWhile_eq_self_iff hd_rev)
  show ?thesis by (simp add: strip_def 1 2)
qed

lemma strip_strip: "strip (strip s) = strip s"
  by (simp add: strip_trimmed trimmed_strip)

lemma lower_char_not_space: "\<not> is_space c \<Longrightarrow> \<not> is_space (lower_char c)"
  by (auto simp: is_space_def lower_char_def Let_def)

lemma lower_char_idem: "lower_char (lower_char c) = lower_char c"
  by (auto simp: lower_char_def Let_def)

lemma norm_char: "\<not> is_space c \<Longrightarrow>
  \<not> is_space (if lower_char c = CHR '' '' then CHR ''_'' else lower_char c)"
  using lower_char_not_space[of c] by (auto simp: is_space_def)

lemma trimmed_normalize: "trimmed (normalize_column s)"
proof -
  have t: "trimmed (strip s)" by (rule trimmed_strip)
  show ?thesis
  proof (cases "strip s = []")
    case True then show ?thesis by (simp add: normalize_column_def lower_def replace_space_def trimmed_def)
  next
    case False
    then show ?thesis using t norm_char
      by (simp add: normalize_column_def lower_def replace_space_def trimmed_def hd_map last_map)
  qed
qed

lemma lower_underscore: "lower_char CHR ''_'' = CHR ''_''"
  by (simp add: lower_char_def)

lemma normalize_fix_char:
  "lower_char (if lower_char c = CHR '' '' then CHR ''_'' else lower_char c)
     = (if lower_char c = CHR '' '' then CHR ''_'' else lower_char c)"
  by (auto simp: lower_char_idem) (simp add: lower_char_def)

lemma normalize_column_idem: "normalize_column (normalize_column s) = normalize_column s"
proof -
  have "strip (normalize_column s) = normalize_column s"
    by (rule strip_trimmed[OF trimmed_normalize])
  then have "normalize_column (normalize_column s) = replace_space (lower (normalize_column s))"
    by (simp add: normalize_column_def)
  also have "\<dots> = normalize_column s"
    by (simp add: normalize_column_def lower_def replace_space_def lower_char_idem lower_underscore)
  finally show ?thesis .
qed

lemma keep_first_subset: "set (keep_first key seen rs) \<subseteq> set rs"
  by (induction rs arbitrary: seen) auto

lemma keep_first_distinct:
  "distinct (map key (keep_first key seen rs)) \<and>
   set (map key (keep_first key seen rs)) \<inter> set seen = {}"
proof (induction rs arbitrary: seen)
  case Nil
  show ?case by simp
next
  case (Cons r rs)
  show ?case
  proof (cases "key r \<in> set seen")
    case True
    then show ?thesis using Cons.IH[of seen] by simp
  next
    case False
    then show ?thesis using Cons.IH[of "key r # seen"] by auto
  qed
qed

lemma keep_first_id:
  "distinct (map key rs) \<Longrightarrow> set (map key rs) \<inter> set seen = {} \<Longrightarrow> keep_first key seen rs = rs"
  by (induction rs arbitrary: seen) auto

lemma keep_first_idem:
  "keep_first key [] (keep_first key [] rs) = keep_first key [] rs"
  using keep_first_distinct[of key "[]" rs] by (simp add: keep_first_id)

lemma cell_at_set_cell_same: "cell_at (set_cell i v r) i = v"
proof -
  have "i < length r + (Suc i - length r)" by arith
  then show ?thesis by (simp add: cell_at_def set_cell_def)
qed

lemma cell_at_set_cell_other: "i \<noteq> j \<Longrightarrow> cell_at (set_cell i v r) j = cell_at r j"
  by (auto simp: cell_at_def set_cell_def nth_append)

lemma length_set_cell: "length (set_cell i v r) = max (length r) (Suc i)"
  by (simp add: set_cell_def)

lemma set_cell_same: "i < length r \<Longrightarrow> r ! i = v \<Longrightarrow> set_cell i v r = r"
  by (auto simp: set_cell_def list_update_id)

lemma getitem_Inr: "getitem df n e = Inr i \<Longrightarrow> positions (columns df) n = [i]"
  by (auto simp: getitem_def split: list.splits)

lemma positions_mem: "i \<in> set (positions cols n) \<longleftrightarrow> i < length cols \<and> cols ! i = n"
  by (auto simp: positions_def)

lemma positions_disjoint:
  "positions cols n = [i] \<Longrightarrow> positions cols m = [j] \<Longrightarrow> n \<noteq> m \<Longrightarrow> i \<noteq> j"
  using positions_mem[of i cols n] positions_mem[of j cols m] by auto

lemma nth_cell_at: "i < length r \<Longrightarrow> r ! i = cell_at r i"
  by (simp add: cell_at_def)

lemma to_numeric_F: "\<exists>x. to_numeric L c = F x"
  by (cases c) (simp_all add: to_numeric_def)

lemma cleaned_row_build:
  assumes "lon \<noteq> lat" "lon \<noteq> loc" "lat \<noteq> loc"
  shows "cleaned_row lon lat loc
     (set_cell loc (clean_location L c3) (set_cell lat (to_numeric L c2) (set_cell lon (to_numeric L c1) r)))"
proof -
  let ?r1 = "set_cell lon (to_numeric L c1) r"
  let ?r2 = "set_cell lat (to_numeric L c2) ?r1"
  let ?r3 = "set_cell loc (clean_location L c3) ?r2"
  have len: "lon < length ?r3" "lat < length ?r3" "loc < length ?r3"
    by (simp_all add: length_set_cell)
  have "cell_at ?r3 lon = to_numeric L c1"
    using assms by (simp add: cell_at_set_cell_other cell_at_set_cell_same)
  moreover have "cell_at ?r3 lat = to_numeric L c2"
    using assms by (simp add: cell_at_set_cell_other cell_at_set_cell_same)
  moreover have "cell_at ?r3 loc = clean_location L c3"
    by (simp add: cell_at_set_cell_same)
  ultimately show ?thesis
    using to_numeric_F[of L c1] to_numeric_F[of L c2] len
    unfolding cleaned_row_def
    by (auto simp: nth_cell_at clean_location_def simp del: length_set_cell)
qed

lemma cleaned_row_fix:
  assumes "cleaned_row lon lat loc r"
  shows "set_cell lon (to_numeric L (cell_at r lon)) r = r"
    and "set_cell lat (to_numeric L (cell_at r lat)) r = r"
    and "set_cell loc (clean_location L (cell_at r loc)) r = r"
  using assms
  by (auto simp: cleaned_row_def cell_at_def to_numeric_def clean_location_def astype_str_def
      strip_strip intro!: set_cell_same)

lemma columns_map_column: "columns (map_column i f df) = columns df"
  by (simp add: map_column_def)

lemma dropna_Inr:
  "dropna df ls = Inr df' \<Longrightarrow>
     missing_labels (columns df) ls = [] \<and> columns df' = columns df \<and>
     rows df' = filter (\<lambda>r. \<forall>i \<in> set (subset_positions (columns df) ls). \<not> isna (cell_at r i)) (rows df)"
  by (auto simp: dropna_def split: list.splits)

lemma drop_duplicates_Inr:
  "drop_duplicates df ls = Inr df' \<Longrightarrow>
     missing_labels (columns df) ls = [] \<and> columns df' = columns df \<and>
     rows df' = keep_first (row_key (columns df) ls) [] (rows df)"
  by (auto simp: drop_duplicates_def split: list.splits)

lemma clean_Inr:
  assumes "clean L df0 = Inr df"
  shows "\<exists>lon lat loc.
     columns df = map normalize_column (columns df0) \<and>
     positions (columns df) ''longitude'' = [lon] \<and>
     positions (columns df) ''latitude'' = [lat] \<and>
     positions (columns df) ''location'' = [loc] \<and>
     missing_labels (columns df) required = [] \<and>
     distinct (map (row_key (columns df) [''crime_id'']) (rows df)) \<and>
     (\<forall>r \<in> set (rows df). cleaned_row lon lat loc r \<and>
        (\<forall>i \<in> set (subset_positions (columns df) required). \<not> isna (cell_at r i)))"
proof -
  define df1 where "df1 = df0\<lparr>columns := map normalize_column (columns df0)\<rparr>"
  from assms obtain lon where lon: "getitem df1 ''longitude'' TypeError = Inr lon"
    by (cases "getitem df1 ''longitude'' TypeError") (simp_all add: clean_def bind_err_def df1_def Let_def)
  define df2 where "df2 = map_column lon (to_numeric L) df1"
  from assms lon obtain lat where lat: "getitem df2 ''latitude'' TypeError = Inr lat"
    by (cases "getitem df2 ''latitude'' TypeError") (simp_all add: clean_def bind_err_def df1_def df2_def Let_def)
  define df3 where "df3 = map_column lat (to_numeric L) df2"
  from assms lon lat obtain loc where loc: "getitem df3 ''location'' AttributeError = Inr loc"
    by (cases "getitem df3 ''location'' AttributeError")
       (simp_all add: clean_def bind_err_def df1_def df2_def df3_def Let_def)
  define df4 where "df4 = map_column loc (clean_location L) df3"
  from assms lon lat loc obtain df5 where df5: "dropna df4 required = Inr df5"
    by (cases "dropna df4 required")
       (simp_all add: clean_def bind_err_def df1_def df2_def df3_def df4_def Let_def required_def)
  from assms lon lat loc df5 have dd: "drop_duplicates df5 [''crime_id''] = Inr df"
    by (simp add: clean_def bind_err_def df1_def df2_def df3_def df4_def Let_def required_def)
  have c4: "columns df4 = map normalize_column (columns df0)"
    by (simp add: df4_def df3_def df2_def df1_def columns_map_column)
  have c: "columns df = map normalize_column (columns df0)" "columns df5 = columns df"
    using dropna_Inr[OF df5] drop_duplicates_Inr[OF dd] c4 by simp_all
  have plon: "positions (columns df) ''longitude'' = [lon]"
    using getitem_Inr[OF lon] by (simp add: c df1_def)
  have plat: "positions (columns df) ''latitude'' = [lat]"
    using getitem_Inr[OF lat] by (simp add: c df2_def df1_def columns_map_column)
  have ploc: "positions (columns df) ''location'' = [loc]"
    using getitem_Inr[OF loc] by (simp add: c df3_def df2_def df1_def columns_map_column)
  have ne: "lon \<noteq> lat" "lon \<noteq> loc" "lat \<noteq> loc"
    using positions_disjoint[OF plon plat] positions_disjoint[OF plon ploc]
      positions_disjoint[OF plat ploc] by simp_all
  have r4: "\<forall>r \<in> set (rows df4). cleaned_row lon lat loc r"
    using cleaned_row_build[OF ne]
    by (auto simp: df4_def df3_def df2_def map_column_def)
  have r5: "rows df5 = filter (\<lambda>r. \<forall>i \<in> set (subset_positions (columns df) required). \<not> isna (cell_at r i)) (rows df4)"
    using dropna_Inr[OF df5] c c4 by simp
  have r: "rows df = keep_first (row_key (columns df) [''crime_id'']) [] (rows df5)"
    using drop_duplicates_Inr[OF dd] c by simp
  have sub: "set (rows df) \<subseteq> set (rows df5)"
    unfolding r by (rule keep_first_subset)
  have ml: "missing_labels (columns df) required = []"
    using dropna_Inr[OF df5] c c4 by simp
  have d: "distinct (map (row_key (columns df) [''crime_id'']) (rows df))"
    unfolding r using keep_first_distinct[of _ "[]"] by blast
  show ?thesis
    using c(1) plon plat ploc ml d sub r4 r5 by auto
qed

lemma clean_example: "clean example_lib raw_example = Inr cleaned_example"
  by code_simp

section \<open>The Loader/Cleaner\<close>

text \<open>
  Claim C9. Cleaning a table that is already an output of the cleaning returns the same
  table: the same labels, the same rows with the same values, in the same order.
\<close>

theorem clean_idempotent:
  assumes "clean L df0 = Inr df"
  shows "clean L df = Inr df"
proof -
  from clean_Inr[OF assms] obtain lon lat loc where
    c: "columns df = map normalize_column (columns df0)" and
    plon: "positions (columns df) ''longitude'' = [lon]" and
    plat: "positions (columns df) ''latitude'' = [lat]" and
    ploc: "positions (columns df) ''location'' = [loc]" and
    ml: "missing_labels (columns df) required = []" and
    d: "distinct (map (row_key (columns df) [''crime_id'']) (rows df))" and
    rs: "\<forall>r \<in> set (rows df). cleaned_row lon lat loc r \<and>
        (\<forall>i \<in> set (subset_positions (columns df) required). \<not> isna (cell_at r i))"
    by blast
  have "map normalize_column (columns df) = columns df"
    by (simp add: c normalize_column_idem)
  then have s1: "df\<lparr>columns := map normalize_column (columns df)\<rparr> = df" by simp
  have g1: "getitem df ''longitude'' TypeError = Inr lon"
    and g2: "getitem df ''latitude'' TypeError = Inr lat"
    and g3: "getitem df ''location'' AttributeError = Inr loc"
    by (simp_all add: getitem_def plon plat ploc)
  have m1: "map_column lon (to_numeric L) df = df"
    and m2: "map_column lat (to_numeric L) df = df"
    and m3: "map_column loc (clean_location L) df = df"
    using rs cleaned_row_fix[of lon lat loc _ L]
    by (simp_all add: map_column_def map_idI)
  have f: "filter (\<lambda>r. \<forall>i \<in> set (subset_positions (columns df) required). \<not> isna (cell_at r i)) (rows df) = rows df"
    using rs by (simp add: filter_id_conv)
  have dn: "dropna df required = Inr df"
    by (simp add: dropna_def ml f)
  have ml1: "missing_labels (columns df) [''crime_id''] = []"
    using ml by (simp add: missing_labels_def required_def split: if_splits)
  have kf: "keep_first (row_key (columns df) [''crime_id'']) [] (rows df) = rows df"
    using d by (simp add: keep_first_id)
  have dd: "drop_duplicates df [''crime_id''] = Inr df"
    by (simp add: drop_duplicates_def ml1 kf)
  show ?thesis
    using dn dd
    by (simp add: clean_def Let_def s1 g1 g2 g3 m1 m2 m3 bind_err_def required_def)
qed

theorem clean_idempotent_witness:
  "clean example_lib raw_example = Inr cleaned_example \<and>
   clean example_lib cleaned_example = Inr cleaned_example"
  using clean_idempotent[of example_lib raw_example cleaned_example] clean_example by simp

text \<open>
  Claim C3, as amended. In the table the cleaning returns, no two rows have the same
  identifier, no identifier is missing, and both coordinates of every row are numbers
  (neither missing nor NaN). An infinite coordinate is a number to \<open>dropna\<close> and is
  kept.
\<close>

theorem clean_unique_present:
  assumes "clean L df0 = Inr df"
  shows "distinct (map (incident_id df) (rows df)) \<and>
         list_all (\<lambda>r. \<not> list_ex isna (incident_id df r)) (rows df) \<and>
         present_coordinates df"
proof -
  from clean_Inr[OF assms] obtain lon lat loc where
    plon: "positions (columns df) ''longitude'' = [lon]" and
    plat: "positions (columns df) ''latitude'' = [lat]" and
    d: "distinct (map (row_key (columns df) [''crime_id'']) (rows df))" and
    rs: "\<forall>r \<in> set (rows df). cleaned_row lon lat loc r \<and>
        (\<forall>i \<in> set (subset_positions (columns df) required). \<not> isna (cell_at r i))"
    by blast
  have d': "distinct (map (incident_id df) (rows df))"
    using d by (simp add: incident_id_def[abs_def])
  have ids: "\<not> list_ex isna (incident_id df r)" if "r \<in> set (rows df)" for r
    using rs that
    by (auto simp: incident_id_def row_key_def list_ex_iff subset_positions_def required_def)
  have co: "list_all is_number (coordinates df r)" if r: "r \<in> set (rows df)" for r
  proof -
    have cr: "cleaned_row lon lat loc r" using rs r by simp
    have "\<not> isna (cell_at r lat)" "\<not> isna (cell_at r lon)"
      using rs r by (simp_all add: subset_positions_def required_def plon plat)
    moreover obtain x y where "cell_at r lon = F x" "cell_at r lat = F y"
      using cr by (auto simp: cleaned_row_def cell_at_def)
    ultimately have "is_number (cell_at r lat)" "is_number (cell_at r lon)"
      by (cases x; cases y; simp add: isna_def)+
    then show ?thesis
      by (simp add: coordinates_def row_key_def subset_positions_def plon plat)
  qed
  show ?thesis using d' ids co by (simp add: present_coordinates_def list_all_iff)
qed

theorem clean_unique_present_witness:
  "clean example_lib raw_example = Inr cleaned_example \<and>
   distinct (map (incident_id cleaned_example) (rows cleaned_example)) \<and>
   list_all (\<lambda>r. \<not> list_ex isna (incident_id cleaned_example r)) (rows cleaned_example) \<and>
   present_coordinates cleaned_example"
  using clean_unique_present[of example_lib raw_example cleaned_example] clean_example by simp

text \<open>
  Claim C3 as stated also asks for finite coordinates. A row whose latitude is the float
  infinity passes the coercion unchanged and is not dropped.
\<close>

theorem clean_keeps_infinite:
  "clean example_lib raw_infinite = Inr cleaned_infinite \<and> \<not> finite_coordinates cleaned_infinite"
  by code_simp

section \<open>The Category Collapser\<close>

lemma set_keep_first_id: "set (keep_first (\<lambda>c. c) seen xs) = set xs - set seen"
  by (induction xs arbitrary: seen) auto

lemma set_uniques: "set (uniques xs) = set xs"
  by (simp add: uniques_def set_keep_first_id)

lemma distinct_uniques: "distinct (uniques xs)"
  using keep_first_distinct[of "\<lambda>c. c" "[]" xs] by (simp add: uniques_def)

lemma set_present: "set (present col) = {c \<in> set col. \<not> isna c}"
  by (auto simp: present_def)

lemma rare_iff: "x \<in> set (rare col) \<longleftrightarrow> x \<in> set col \<and> \<not> isna x \<and> count_list col x < 1000"
  by (auto simp: rare_def set_uniques set_present)

lemma count_list_map_ge: "f x = x \<Longrightarrow> count_list ys x \<le> count_list (map f ys) x"
  by (induction ys) auto

lemma collapse_label_fix:
  assumes "x \<in> set col"
  shows "collapse_label (collapse col) (collapse_label col x) = collapse_label col x"
proof (cases "x \<in> set (rare col)")
  case True
  then show ?thesis by (simp add: collapse_label_def)
next
  case False
  then have fx: "collapse_label col x = x" by (simp add: collapse_label_def)
  have "x \<notin> set (rare (collapse col))"
  proof
    assume r: "x \<in> set (rare (collapse col))"
    then have na: "\<not> isna x" and lt: "count_list (collapse col) x < 1000"
      by (simp_all add: rare_iff)
    have "count_list col x \<le> count_list (collapse col) x"
      unfolding collapse_def using count_list_map_ge[of "collapse_label col" x col] fx by simp
    then have "count_list col x < 1000" using lt by simp
    then show False using False assms na by (simp add: rare_iff)
  qed
  then show ?thesis by (simp add: fx collapse_label_def)
qed

lemma collapse_idem: "collapse (collapse col) = collapse col"
proof -
  have "map (collapse_label (collapse col)) (map (collapse_label col) col) = map (collapse_label col) col"
    by (simp add: collapse_label_fix)
  then show ?thesis by (simp add: collapse_def)
qed

lemma count_list_replicate: "count_list (replicate n x) y = (if x = y then n else 0)"
  by (induction n) auto

text \<open>
  Claim C4. In a category column with no missing value (the cleaning has dropped the rows
  without a category), the collapse leaves a category that occurs at least 1000 times as
  it is and rewrites every other one to "Other"; it keeps every row; and collapsing the
  collapsed column changes nothing.
\<close>

theorem collapse_correct:
  "(\<forall>i < length col. \<not> isna (col ! i) \<longrightarrow>
      collapse col ! i = (if 1000 \<le> count_list col (col ! i) then col ! i else S ''Other'')) \<and>
   length (collapse col) = length col \<and>
   collapse (collapse col) = collapse col"
proof -
  have "collapse col ! i = (if 1000 \<le> count_list col (col ! i) then col ! i else S ''Other'')"
    if "i < length col" "\<not> isna (col ! i)" for i
    using that by (simp add: collapse_def collapse_label_def rare_iff)
  then show ?thesis by (simp add: collapse_idem) (simp add: collapse_def)
qed

theorem collapse_correct_witness:
  "collapse spec_categories ! 0 = S ''Burglary'' \<and>
   collapse spec_categories ! 2700 = S ''Other'' \<and>
   length (collapse spec_categories) = 3100 \<and>
   collapse (collapse spec_categories) = collapse spec_categories"
proof -
  note c = collapse_correct[of spec_categories]
  have l: "length spec_categories = 3100" by (simp add: spec_categories_def)
  have n0: "spec_categories ! 0 = S ''Burglary''"
    by (simp add: spec_categories_def nth_append)
  have n1: "spec_categories ! 2700 = S ''Vandalism''"
    by (simp add: spec_categories_def nth_append)
  have c0: "count_list spec_categories (S ''Burglary'') = 1500"
    by (simp add: spec_categories_def count_list_replicate)
  have c1: "count_list spec_categories (S ''Vandalism'') = 400"
    by (simp add: spec_categories_def count_list_replicate)
  have "collapse spec_categories ! 0 = S ''Burglary''"
    using c[THEN conjunct1, rule_format, of 0] by (simp add: l n0 c0 isna_def)
  moreover have "collapse spec_categories ! 2700 = S ''Other''"
    using c[THEN conjunct1, rule_format, of 2700] by (simp add: l n1 c1 isna_def)
  ultimately show ?thesis using c l by simp
qed

section \<open>The label encoder\<close>

lemma set_insert_sorted: "set (insert_sorted x ys) = insert x (set ys)"
  by (induction ys) auto

lemma set_sorted_cells: "set (sorted_cells xs) = set xs"
  unfolding sorted_cells_def by (induction xs) (simp_all add: set_insert_sorted)

lemma distinct_insert_sorted: "distinct (insert_sorted x ys) \<longleftrightarrow> x \<notin> set ys \<and> distinct ys"
  by (induction ys) (auto simp: set_insert_sorted)

lemma distinct_sorted_cells: "distinct xs \<Longrightarrow> distinct (sorted_cells xs)"
  unfolding sorted_cells_def
  by (induction xs) (simp_all add: distinct_insert_sorted set_sorted_cells[unfolded sorted_cells_def])

lemma le_fit_classes:
  assumes "le_fit col = Inr enc"
  shows "set (classes enc) = set col" and "distinct (classes enc)"
proof -
  have c: "classes enc = sorted_cells (uniques (present col)) @ (if list_ex isna col then [F NaN] else [])"
    using assms by (auto simp: le_fit_def Let_def split: if_splits)
  show "set (classes enc) = set col"
    by (auto simp: c set_sorted_cells set_uniques set_present list_ex_iff isna_def)
  show "distinct (classes enc)"
    by (auto simp: c distinct_sorted_cells distinct_uniques set_sorted_cells set_uniques
        set_present isna_def)
qed

lemma index_of_mem: "x \<in> set cs \<Longrightarrow> index_of cs x < length cs \<and> cs ! index_of cs x = x"
  by (induction cs) auto

lemma index_of_nth: "distinct cs \<Longrightarrow> i < length cs \<Longrightarrow> index_of cs (cs ! i) = i"
proof (induction cs arbitrary: i)
  case Nil
  then show ?case by simp
next
  case (Cons c cs)
  then show ?case by (cases i) auto
qed

lemma le_transform_seen:
  assumes "set ys \<subseteq> set (classes enc)"
  shows "le_transform enc ys = Inr (map (index_of (classes enc)) ys)"
  using assms by (auto simp: le_transform_def list_ex_iff)

lemma le_inverse_codes:
  assumes "set ys \<subseteq> set (classes enc)"
  shows "le_inverse_transform enc (map (index_of (classes enc)) ys) = Inr ys"
proof -
  have "\<forall>y \<in> set ys. index_of (classes enc) y < length (classes enc) \<and>
          classes enc ! index_of (classes enc) y = y"
    using assms index_of_mem by blast
  then show ?thesis
    by (auto simp: le_inverse_transform_def list_ex_iff map_idI)
qed

text \<open>
  Claim C8. Once the target encoder is fitted on a label column, every label of the
  column is encoded to an id that \<open>inverse_transform\<close> decodes to the same label, and
  decoding the ids that \<open>fit_transform\<close> returned gives the column back.
\<close>

theorem target_round_trip:
  assumes "le_fit y = Inr enc"
  shows "(\<forall>l \<in> set y. \<exists>c. le_transform enc [l] = Inr [c] \<and>
            le_inverse_transform enc [c] = Inr [l]) \<and>
         (\<exists>codes. le_fit_transform y = Inr (enc, codes) \<and>
            le_inverse_transform enc codes = Inr y)"
proof -
  have s: "set (classes enc) = set y" by (rule le_fit_classes(1)[OF assms])
  have 1: "\<exists>c. le_transform enc [l] = Inr [c] \<and> le_inverse_transform enc [c] = Inr [l]"
    if "l \<in> set y" for l
    using le_transform_seen[of "[l]" enc] le_inverse_codes[of "[l]" enc] that s
    by simp
  have 2: "le_fit_transform y = Inr (enc, map (index_of (classes enc)) y)"
    using le_transform_seen[of y enc] s assms by (simp add: le_fit_transform_def bind_err_def)
  have 3: "le_inverse_transform enc (map (index_of (classes enc)) y) = Inr y"
    using le_inverse_codes[of y enc] s by simp
  show ?thesis using 1 2 3 by blast
qed

lemma example_le_fit: "le_fit example_target = Inr example_le_target"
  by code_simp

theorem target_round_trip_witness:
  "le_fit example_target = Inr example_le_target \<and>
   (\<exists>c. le_transform example_le_target [S ''Theft''] = Inr [c] \<and>
        le_inverse_transform example_le_target [c] = Inr [S ''Theft'']) \<and>
   (\<exists>y_enc. le_fit_transform example_target = Inr (example_le_target, y_enc) \<and>
        le_inverse_transform example_le_target y_enc = Inr example_target)"
proof -
  note t = target_round_trip[OF example_le_fit]
  have "S ''Theft'' \<in> set example_target" by (simp add: example_target_def)
  then show ?thesis using t example_le_fit by blast
qed

section \<open>The mode and the encoders of the categorical features\<close>

lemma le_transform_replicate:
  "v \<in> set (classes enc) \<Longrightarrow>
     le_transform enc (replicate n v) = Inr (replicate n (index_of (classes enc) v))"
  by (simp add: le_transform_def list_ex_iff map_replicate)

lemma set_modes: "set (modes col) \<subseteq> {c \<in> set col. \<not> isna c}"
  by (auto simp: modes_def Let_def set_uniques set_present)

lemma max_count_exists:
  "vs \<noteq> [] \<Longrightarrow> \<exists>v \<in> set vs. \<forall>w \<in> set vs. (f w :: nat) \<le> f v"
proof (induction vs)
  case Nil
  then show ?case by simp
next
  case (Cons a vs)
  show ?case
  proof (cases "vs = []")
    case True
    then show ?thesis by simp
  next
    case False
    then obtain v where v: "v \<in> set vs" "\<forall>w \<in> set vs. f w \<le> f v"
      using Cons.IH by blast
    show ?thesis
    proof (cases "f v \<le> f a")
      case True
      then show ?thesis using v by (intro bexI[of _ a]) auto
    next
      case False
      then show ?thesis using v by (intro bexI[of _ v]) auto
    qed
  qed
qed

lemma modes_nonempty:
  assumes "present col \<noteq> []"
  shows "modes col \<noteq> []"
proof -
  have "uniques (present col) \<noteq> []"
    using assms set_uniques[of "present col"] by (metis set_empty)
  from max_count_exists[OF this, of "count_list col"]
  obtain v where "v \<in> set (uniques (present col))"
    "\<forall>w \<in> set (uniques (present col)). count_list col w \<le> count_list col v"
    by blast
  then have "v \<in> set (modes col)" by (simp add: modes_def Let_def)
  then show ?thesis by auto
qed

lemma mode0_Inr: "mode0 col = Inr v \<Longrightarrow> v \<in> set col \<and> \<not> isna v"
proof -
  assume a: "mode0 col = Inr v"
  let ?ms = "if sortable (modes col) then sorted_cells (modes col) else modes col"
  have s: "set ?ms = set (modes col)" by (simp add: set_sorted_cells)
  from a have "v \<in> set ?ms"
    unfolding mode0_def by (cases ?ms) auto
  then show ?thesis using s set_modes[of col] by auto
qed

lemma mode0_Inl: "mode0 col = Inl e \<Longrightarrow> e = KeyError ''0'' \<and> present col = []"
proof -
  assume a: "mode0 col = Inl e"
  let ?ms = "if sortable (modes col) then sorted_cells (modes col) else modes col"
  have s: "set ?ms = set (modes col)" by (simp add: set_sorted_cells)
  from a have e: "e = KeyError ''0''" and "?ms = []"
    unfolding mode0_def by (cases ?ms; auto)+
  then have "modes col = []" using s by (metis set_empty)
  then show ?thesis using e modes_nonempty by blast
qed

lemma mode0_present: "present col \<noteq> [] \<Longrightarrow> \<exists>v. mode0 col = Inr v"
  using mode0_Inl[of col] by (cases "mode0 col") auto

lemma modal_codes_fitted:
  assumes "le_fit col = Inr enc"
  shows "modal_codes enc col \<noteq> Inl unseen_labels \<and>
         (\<forall>v. mode0 col = Inr v \<longrightarrow>
            v \<in> set (classes enc) \<and>
            modal_codes enc col = Inr (replicate n_samples (index_of (classes enc) v))) \<and>
         (present col \<noteq> [] \<longrightarrow> (\<exists>v. mode0 col = Inr v))"
proof -
  have s: "set (classes enc) = set col" by (rule le_fit_classes(1)[OF assms])
  have 1: "v \<in> set (classes enc) \<and>
        modal_codes enc col = Inr (replicate n_samples (index_of (classes enc) v))"
    if "mode0 col = Inr v" for v
    using mode0_Inr[OF that] s that
    by (simp add: modal_codes_def bind_err_def le_transform_replicate)
  have 2: "modal_codes enc col \<noteq> Inl unseen_labels"
  proof (cases "mode0 col")
    case (Inl e)
    then show ?thesis using mode0_Inl[OF Inl]
      by (simp add: modal_codes_def bind_err_def unseen_labels_def)
  next
    case (Inr v)
    then show ?thesis using 1[OF Inr] by simp
  qed
  show ?thesis using 1 2 mode0_present by blast
qed

lemma bind_err_Inr: "bind_err m f = Inr y \<Longrightarrow> \<exists>x. m = Inr x \<and> f x = Inr y"
  by (cases m) (simp_all add: bind_err_def)

lemma map_err_Inr: "map_err f xs = Inr ys \<Longrightarrow> list_all2 (\<lambda>x y. f x = Inr y) xs ys"
proof (induction xs arbitrary: ys)
  case Nil
  then show ?case by simp
next
  case (Cons x xs)
  from Cons.prems obtain y where y: "f x = Inr y"
    and r: "bind_err (map_err f xs) (\<lambda>ys. Inr (y # ys)) = Inr ys"
    using bind_err_Inr[of "f x"] by fastforce
  from r obtain zs where zs: "map_err f xs = Inr zs" and "ys = y # zs"
    using bind_err_Inr[of "map_err f xs"] by fastforce
  then show ?case using y Cons.IH[OF zs] by simp
qed

lemma map_err_length: "map_err f xs = Inr ys \<Longrightarrow> length ys = length xs"
  using map_err_Inr[of f xs ys] by (simp add: list_all2_lengthD)

lemma select_features_Inr:
  assumes "select_features df = Inr ps"
  shows "\<exists>lon lat rb fw oc. ps = [lon, lat, rb, fw, oc] \<and>
     positions (columns df) ''longitude'' = [lon] \<and>
     positions (columns df) ''latitude'' = [lat] \<and>
     positions (columns df) ''reported_by'' = [rb] \<and>
     positions (columns df) ''falls_within'' = [fw] \<and>
     positions (columns df) ''last_outcome_category'' = [oc]"
proof -
  from assms have "map_err (\<lambda>n. getitem df n (ValueError ''bad input shape'')) features = Inr ps"
    by (simp add: select_features_def split: list.splits)
  from map_err_Inr[OF this]
  show ?thesis
    by (auto simp: features_def list_all2_Cons1 dest!: getitem_Inr)
qed

lemma le_fit_transform_Inr:
  "le_fit_transform col = Inr (enc, codes) \<Longrightarrow>
     le_fit col = Inr enc \<and> codes = map (index_of (classes enc)) col"
proof -
  assume a: "le_fit_transform col = Inr (enc, codes)"
  then obtain e where e: "le_fit col = Inr e"
    and r: "bind_err (le_transform e col) (\<lambda>codes. Inr (e, codes)) = Inr (enc, codes)"
    unfolding le_fit_transform_def using bind_err_Inr[of "le_fit col"] by fastforce
  from r obtain cs where cs: "le_transform e col = Inr cs" and "Inr (e, cs) = (Inr (enc, codes) :: error + _)"
    using bind_err_Inr[of "le_transform e col"] by fastforce
  then have "e = enc" "cs = codes" by simp_all
  moreover have "le_transform e col = Inr (map (index_of (classes e)) col)"
    using le_fit_classes(1)[OF e] by (simp add: le_transform_seen)
  ultimately show ?thesis using e cs by simp
qed

lemma check_array_Inr:
  "check_array X = Inr cols \<Longrightarrow>
     cols = map (map feature_value) X \<and> list_all (list_all not_infinite) X \<and>
     \<not> list_all (\<lambda>c. c = []) X"
  by (auto simp: check_array_def split: if_splits)

lemma scaler_fit_Inr:
  "scaler_fit X = Inr sc \<Longrightarrow>
     length (fitted_mean sc) = length X \<and> length (fitted_scale sc) = length X \<and>
     list_all (list_all not_infinite) X \<and> \<not> list_all (\<lambda>c. c = []) X"
proof -
  assume "scaler_fit X = Inr sc"
  then obtain cols where c: "check_array X = Inr cols"
    and s: "sc = \<lparr>fitted_mean = map nanmean cols, fitted_scale = map column_scale cols\<rparr>"
    unfolding scaler_fit_def using bind_err_Inr[of "check_array X"] by fastforce
  show ?thesis using check_array_Inr[OF c] s by simp
qed

lemma scaler_fit_transform_Inr:
  "scaler_fit_transform X = Inr (sc, XS) \<Longrightarrow> scaler_fit X = Inr sc \<and> length XS = length X"
proof -
  assume a: "scaler_fit_transform X = Inr (sc, XS)"
  then obtain s where s: "scaler_fit X = Inr s"
    and r: "bind_err (scaler_transform s X) (\<lambda>XS. Inr (s, XS)) = Inr (sc, XS)"
    unfolding scaler_fit_transform_def using bind_err_Inr[of "scaler_fit X"] by fastforce
  from r obtain Y where Y: "scaler_transform s X = Inr Y" and "Inr (s, Y) = (Inr (sc, XS) :: error + _)"
    using bind_err_Inr[of "scaler_transform s X"] by fastforce
  then have e: "s = sc" "Y = XS" by simp_all
  from Y obtain cols where c: "check_array X = Inr cols" and
    t: "(if length cols \<noteq> length (fitted_mean s) then Inl (ValueError ''X has a different number of features'')
        else Inr (map (\<lambda>(c, m, s). map (standardize m s) c) (zip cols (zip (fitted_mean s) (fitted_scale s))))) = Inr Y"
    unfolding scaler_transform_def using bind_err_Inr[of "check_array X"] by fastforce
  have "length cols = length X" using check_array_Inr[OF c] by simp
  then have "length Y = length X"
    using t scaler_fit_Inr[OF s] by (auto split: if_splits)
  then show ?thesis using s e by simp
qed

section \<open>What a returned \<open>train_model\<close> has done\<close>

lemma columns_set_column: "columns (set_column i vs df) = columns df"
  by (simp add: set_column_def)

lemma train_model_Inr:
  assumes "train_model L df = Inr t"
  shows "\<exists>dm0 ct lon lat rb fw oc le_rb le_fw le_oc lons lats.
     dropna df [''lsoa_code'', ''lsoa_name''] = Inr dm0 \<and>
     positions (columns dm0) ''crime_type'' = [ct] \<and>
     df_model t = set_column ct (collapse (column dm0 ct)) dm0 \<and>
     positions (columns (df_model t)) ''longitude'' = [lon] \<and>
     positions (columns (df_model t)) ''latitude'' = [lat] \<and>
     positions (columns (df_model t)) ''reported_by'' = [rb] \<and>
     positions (columns (df_model t)) ''falls_within'' = [fw] \<and>
     positions (columns (df_model t)) ''last_outcome_category'' = [oc] \<and>
     label_encoders t =
       [(''reported_by'', le_rb), (''falls_within'', le_fw), (''last_outcome_category'', le_oc)] \<and>
     le_fit (column (df_model t) rb) = Inr le_rb \<and>
     le_fit (column (df_model t) fw) = Inr le_fw \<and>
     le_fit (column (df_model t) oc) = Inr le_oc \<and>
     map_err (as_float L) (column (df_model t) lon) = Inr lons \<and>
     map_err (as_float L) (column (df_model t) lat) = Inr lats \<and>
     scaler_fit [lons, lats] = Inr (scaler t) \<and>
     le_fit (column (df_model t) ct) = Inr (le_target t) \<and>
     (\<exists>X. rf_fit L X (map (index_of (classes (le_target t))) (column (df_model t) ct)) = Inr (rf t))"
  using assms
  unfolding train_model_def Let_def
  apply (clarsimp simp: bind_err_def split: sum.splits list.splits prod.splits)
  apply (drule select_features_Inr getitem_Inr le_fit_transform_Inr scaler_fit_transform_Inr)+
  apply auto
  done

section \<open>The period loop\<close>

lemma length_uniform: "length (fst (uniform lo hi n g)) = n"
  by (simp add: uniform_def)

lemma draw_coordinates_eq:
  "draw_coordinates b g =
     (fst (uniform (lon_min b) (lon_max b) n_samples g),
      fst (uniform (lat_min b) (lat_max b) n_samples (\<lambda>i. g (i + n_samples))),
      (\<lambda>i. g (i + 2 * n_samples)))"
  by (simp add: draw_coordinates_def uniform_def Let_def add.assoc mult_2)

lemma le_transform_length: "le_transform enc ys = Inr codes \<Longrightarrow> length codes = length ys"
  by (auto simp: le_transform_def split: if_splits)

lemma modal_codes_length: "modal_codes enc col = Inr codes \<Longrightarrow> length codes = n_samples"
  unfolding modal_codes_def
  by (drule bind_err_Inr) (auto dest: le_transform_length)

lemma modal_feature_length: "modal_feature t name = Inr codes \<Longrightarrow> length codes = n_samples"
  unfolding modal_feature_def
  by (auto split: option.splits dest!: bind_err_Inr modal_codes_length)

lemma scaler_transform_two:
  assumes "scaler_transform sc [A, B] = Inr [xs, ys]"
  shows "\<exists>m1 s1 m2 s2.
           xs = map (\<lambda>x. standardize m1 s1 (feature_value x)) A \<and>
           ys = map (\<lambda>y. standardize m2 s2 (feature_value y)) B \<and>
           fitted_mean sc = [m1, m2] \<and> take 2 (fitted_scale sc) = [s1, s2]"
proof -
  from assms obtain cols where c: "check_array [A, B] = Inr cols" and
    t: "(if length cols \<noteq> length (fitted_mean sc)
         then Inl (ValueError ''X has a different number of features'')
         else Inr (map (\<lambda>(c, m, s). map (standardize m s) c)
                 (zip cols (zip (fitted_mean sc) (fitted_scale sc))))) = Inr [xs, ys]"
    unfolding scaler_transform_def using bind_err_Inr[of "check_array [A, B]"] by fastforce
  have cols: "cols = [map feature_value A, map feature_value B]"
    using check_array_Inr[OF c] by simp
  from t cols have l: "length (fitted_mean sc) = 2" by (auto split: if_splits)
  then obtain m1 m2 where m: "fitted_mean sc = [m1, m2]"
    by (cases "fitted_mean sc"; simp; rename_tac a as; case_tac as; simp)
  from t cols m obtain s1 s2 rest where s: "fitted_scale sc = s1 # s2 # rest"
    by (cases "fitted_scale sc"; simp; rename_tac a as; case_tac as; simp)
  show ?thesis using t cols m s by (auto split: if_splits)
qed

lemma le_inverse_transform_Inr:
  "le_inverse_transform enc ids = Inr labels \<Longrightarrow>
     length labels = length ids \<and> set labels \<subseteq> set (classes enc)"
  by (auto simp: le_inverse_transform_def list_ex_iff not_le split: if_splits)

lemma batch_rows_props:
  assumes "length xs = n" "length ys = n" "length rb = n" "length fw = n" "length oc = n"
    "length labels = n"
  shows "length (batch_rows xs ys rb fw oc m labels) = n"
    and "map simulated_month (batch_rows xs ys rb fw oc m labels) = replicate n m"
    and "map predicted_crime_type (batch_rows xs ys rb fw oc m labels) = labels"
    and "map longitude (batch_rows xs ys rb fw oc m labels) = xs"
    and "map latitude (batch_rows xs ys rb fw oc m labels) = ys"
    and "map reported_by (batch_rows xs ys rb fw oc m labels) = rb"
    and "map falls_within (batch_rows xs ys rb fw oc m labels) = fw"
    and "map last_outcome_category (batch_rows xs ys rb fw oc m labels) = oc"
  using assms
  by (auto simp: batch_rows_def list_eq_iff_nth_eq)

lemma length_draws:
  "length (fst (draw_coordinates b g)) = n_samples"
  "length (fst (snd (draw_coordinates b g))) = n_samples"
  by (simp_all add: draw_coordinates_eq length_uniform)

lemma period_Inr:
  assumes "period t b m g = Inr (d, g')"
  shows "\<exists>rb fw oc m1 s1 m2 s2 labels.
     modal_feature t ''reported_by'' = Inr rb \<and>
     modal_feature t ''falls_within'' = Inr fw \<and>
     modal_feature t ''last_outcome_category'' = Inr oc \<and>
     fitted_mean (scaler t) = [m1, m2] \<and> take 2 (fitted_scale (scaler t)) = [s1, s2] \<and>
     map longitude d = map (\<lambda>x. standardize m1 s1 (Some x)) (fst (draw_coordinates b g)) \<and>
     map latitude d = map (\<lambda>y. standardize m2 s2 (Some y)) (fst (snd (draw_coordinates b g))) \<and>
     map reported_by d = rb \<and> map falls_within d = fw \<and> map last_outcome_category d = oc \<and>
     map simulated_month d = replicate n_samples m \<and>
     map predicted_crime_type d = labels \<and> set labels \<subseteq> set (classes (le_target t)) \<and>
     length d = n_samples \<and> g' = snd (snd (draw_coordinates b g))"
proof -
  obtain lons lats g1 where dc: "draw_coordinates b g = (lons, lats, g1)"
    by (cases "draw_coordinates b g") auto
  have ll: "length lons = n_samples" "length lats = n_samples"
    using length_draws[of b g] by (simp_all add: dc)
  from assms have "\<exists>rb fw oc xs ys preds labels.
      modal_feature t ''reported_by'' = Inr rb \<and>
      modal_feature t ''falls_within'' = Inr fw \<and>
      modal_feature t ''last_outcome_category'' = Inr oc \<and>
      scaler_transform (scaler t) [map Fin lons, map Fin lats] = Inr [xs, ys] \<and>
      le_inverse_transform (le_target t) preds = Inr labels \<and>
      length labels = n_samples \<and> d = batch_rows xs ys rb fw oc m labels \<and> g' = g1"
    unfolding period_def dc
    by (auto simp: bind_err_def split: sum.splits list.splits if_splits)
  then obtain rb fw oc xs ys preds labels where
    rb: "modal_feature t ''reported_by'' = Inr rb" and
    fw: "modal_feature t ''falls_within'' = Inr fw" and
    oc: "modal_feature t ''last_outcome_category'' = Inr oc" and
    st: "scaler_transform (scaler t) [map Fin lons, map Fin lats] = Inr [xs, ys]" and
    lab: "le_inverse_transform (le_target t) preds = Inr labels" and
    len: "length labels = n_samples" and
    d: "d = batch_rows xs ys rb fw oc m labels" and g': "g' = g1"
    by blast
  from scaler_transform_two[OF st] obtain m1 s1 m2 s2 where
    xs: "xs = map (\<lambda>x. standardize m1 s1 (feature_value x)) (map Fin lons)" and
    ys: "ys = map (\<lambda>y. standardize m2 s2 (feature_value y)) (map Fin lats)" and
    ms: "fitted_mean (scaler t) = [m1, m2]" "take 2 (fitted_scale (scaler t)) = [s1, s2]"
    by blast
  have lx: "length xs = n_samples" "length ys = n_samples" using xs ys ll by simp_all
  note br = batch_rows_props[OF lx modal_feature_length[OF rb] modal_feature_length[OF fw]
      modal_feature_length[OF oc] len, of m]
  have "set labels \<subseteq> set (classes (le_target t))"
    using le_inverse_transform_Inr[OF lab] by simp
  then show ?thesis
    using rb fw oc ms br xs ys g' unfolding d dc
    by (simp add: comp_def)
qed

lemma future_loop_Inr:
  assumes "future_loop t b ms g = Inr (fl, g')"
  shows "length fl = length ms \<and>
         (\<forall>k < length ms. length (fl ! k) = n_samples \<and>
            map simulated_month (fl ! k) = replicate n_samples (ms ! k) \<and>
            set (map predicted_crime_type (fl ! k)) \<subseteq> set (classes (le_target t)))"
  using assms
proof (induction ms arbitrary: g fl)
  case Nil
  then show ?case by simp
next
  case (Cons m ms)
  from Cons.prems obtain d g1 rest where
    p: "period t b m g = Inr (d, g1)" and
    l: "future_loop t b ms g1 = Inr (rest, g')" and fl: "fl = d # rest"
    by (auto simp: bind_err_def split: sum.splits)
  from period_Inr[OF p] have
    d: "length d = n_samples" "map simulated_month d = replicate n_samples m"
       "set (map predicted_crime_type d) \<subseteq> set (classes (le_target t))"
    by auto
  show ?case
    using Cons.IH[OF l] d unfolding fl
    by (auto simp: nth_Cons split: nat.splits)
qed

lemma column_set_column_same:
  "length vs = length (rows df) \<Longrightarrow> column (set_column i vs df) i = vs"
  by (auto simp: column_def set_column_def cell_at_set_cell_same list_eq_iff_nth_eq)

lemma column_set_column_other:
  "length vs = length (rows df) \<Longrightarrow> i \<noteq> j \<Longrightarrow> column (set_column i vs df) j = column df j"
  by (auto simp: column_def set_column_def cell_at_set_cell_other list_eq_iff_nth_eq)

lemma collapse_not_missing: "\<not> list_ex isna col \<Longrightarrow> \<not> list_ex isna (collapse col)"
  by (auto simp: list_ex_iff collapse_def collapse_label_def isna_def)

lemma length_collapse: "length (collapse col) = length col"
  by (simp add: collapse_def)

lemma main_Inr:
  assumes "main L raw g = Inr (fut, g')"
  shows "\<exists>df t b fl. clean L raw = Inr df \<and> train_model L df = Inr t \<and>
           bounding_box_of (df_model t) = Inr b \<and>
           future_loop t b periods g = Inr (fl, g') \<and> fut = concat fl"
  using assms
  by (auto simp: main_def predict_future_def bind_err_def split: sum.splits)

lemma target_not_missing:
  assumes c: "clean L raw = Inr df" and t: "train_model L df = Inr t"
  shows "\<not> list_ex isna (classes (le_target t))"
proof -
  from clean_Inr[OF c] have
    rs: "\<forall>r \<in> set (rows df). \<forall>i \<in> set (subset_positions (columns df) required). \<not> isna (cell_at r i)"
    by blast
  from train_model_Inr[OF t] obtain dm0 ct where
    dm0: "dropna df [''lsoa_code'', ''lsoa_name''] = Inr dm0" and
    ct: "positions (columns dm0) ''crime_type'' = [ct]" and
    dm: "df_model t = set_column ct (collapse (column dm0 ct)) dm0" and
    le: "le_fit (column (df_model t) ct) = Inr (le_target t)"
    by blast
  from dropna_Inr[OF dm0] have c0: "columns dm0 = columns df" and
    r0: "set (rows dm0) \<subseteq> set (rows df)" by auto
  have "ct \<in> set (subset_positions (columns df) required)"
    using ct c0 by (simp add: subset_positions_def required_def)
  then have "\<not> list_ex isna (column dm0 ct)"
    using rs r0 by (auto simp: list_ex_iff column_def)
  then have "\<not> list_ex isna (collapse (column dm0 ct))"
    by (rule collapse_not_missing)
  moreover have "column (df_model t) ct = collapse (column dm0 ct)"
    unfolding dm by (rule column_set_column_same) (simp add: length_collapse column_def)
  ultimately show ?thesis
    using le_fit_classes(1)[OF le] by (simp add: list_ex_iff)
qed

lemma filter_disjoint_length:
  "(\<And>x. \<not> (A x \<and> B x)) \<Longrightarrow>
     length (filter A xs) + length (filter B xs) = length (filter (\<lambda>x. A x \<or> B x) xs)"
  by (induction xs) auto

lemma sum_group_sizes:
  "distinct cs \<Longrightarrow>
     sum_list (map (\<lambda>c. length (filter (\<lambda>r. P r \<and> f r = c) xs)) cs)
       = length (filter (\<lambda>r. P r \<and> f r \<in> set cs) xs)"
proof (induction cs)
  case Nil
  then show ?case by simp
next
  case (Cons c cs)
  have "length (filter (\<lambda>r. P r \<and> f r = c) xs) + length (filter (\<lambda>r. P r \<and> f r \<in> set cs) xs)
        = length (filter (\<lambda>r. (P r \<and> f r = c) \<or> (P r \<and> f r \<in> set cs)) xs)"
    using Cons.prems by (intro filter_disjoint_length) auto
  also have "\<dots> = length (filter (\<lambda>r. P r \<and> f r \<in> set (c # cs)) xs)"
    by (rule arg_cong[where f = length], rule filter_cong) auto
  finally show ?case using Cons by simp
qed

lemma pivot_row_sum_eq:
  assumes "\<not> list_ex isna (map predicted_crime_type fut)"
  shows "pivot_row_sum fut m = length (filter (\<lambda>r. simulated_month r = m) fut)"
proof -
  have "pivot_row_sum fut m =
      length (filter (\<lambda>r. simulated_month r = m \<and>
          predicted_crime_type r \<in> set (pivot_columns fut)) fut)"
    unfolding pivot_row_sum_def pivot_def[abs_def] pivot_columns_def
    by (rule sum_group_sizes) (rule distinct_uniques)
  also have "\<dots> = length (filter (\<lambda>r. simulated_month r = m) fut)"
    using assms
    by (intro arg_cong[where f = length] filter_cong)
       (auto simp: pivot_columns_def set_uniques set_present list_ex_iff)
  finally show ?thesis .
qed

lemma periods_eq: "periods = [1, 2, 3, 4, 5, 6]"
  by (simp add: periods_def upt_rec)

lemma months_of_loop:
  assumes "future_loop t b ms g = Inr (fl, g')"
  shows "map simulated_month (concat fl) = concat (map (replicate n_samples) ms)"
proof -
  from future_loop_Inr[OF assms] have
    "map (map simulated_month) fl = map (replicate n_samples) ms"
    by (auto simp: list_eq_iff_nth_eq)
  then show ?thesis by (simp add: map_concat)
qed

lemma labels_of_loop:
  assumes "future_loop t b ms g = Inr (fl, g')"
  shows "set (map predicted_crime_type (concat fl)) \<subseteq> set (classes (le_target t))"
proof -
  have "set (map predicted_crime_type d) \<subseteq> set (classes (le_target t))" if "d \<in> set fl" for d
  proof -
    from that obtain k where "k < length fl" "fl ! k = d" by (auto simp: in_set_conv_nth)
    then show ?thesis using future_loop_Inr[OF assms] by auto
  qed
  then show ?thesis by auto
qed

lemma length_filter_map: "length (filter (\<lambda>r. f r = m) xs) = count_list (map f xs) m"
  by (induction xs) auto

lemma count_list_concat_replicate:
  "distinct ms \<Longrightarrow>
     count_list (concat (map (replicate n) ms)) m = (if m \<in> set ms then n else 0)"
  by (induction ms) (auto simp: count_list_replicate)

lemma length_concat_replicate: "length (concat (map (replicate n) ms)) = n * length ms"
  by (induction ms) auto

lemma set_concat_replicate: "0 < n \<Longrightarrow> set (concat (map (replicate n) ms)) = set ms"
  by (induction ms) auto

section \<open>The pipeline on the example table\<close>

lemma clean_training: "clean example_lib raw_training = Inr cleaned_training"
  by code_simp

lemma check_array_two:
  assumes "list_all not_infinite a" "list_all not_infinite b" "a \<noteq> []"
  shows "check_array [a, b] = Inr [map feature_value a, map feature_value b]"
  using assms by (simp add: check_array_def)

lemma scaler_fit_transform_two:
  assumes "list_all not_infinite a" "list_all not_infinite b" "a \<noteq> []"
  shows "\<exists>sc xs ys. scaler_fit_transform [a, b] = Inr (sc, [xs, ys])"
  using check_array_two[OF assms]
  by (simp add: scaler_fit_transform_def scaler_fit_def scaler_transform_def bind_err_def)

lemma le_fit_transform_fitted:
  "le_fit col = Inr enc \<Longrightarrow> le_fit_transform col = Inr (enc, map (index_of (classes enc)) col)"
  using le_transform_seen[of col enc] le_fit_classes(1)[of col enc]
  by (simp add: le_fit_transform_def bind_err_def)

lemma train_model_succeeds:
  assumes dm0: "dropna df [''lsoa_code'', ''lsoa_name''] = Inr dm0"
    and ct: "getitem dm0 ''crime_type'' TypeError = Inr ct"
    and dm: "dm = set_column ct (collapse (column dm0 ct)) dm0"
    and ps: "select_features dm = Inr [lon, lat, rb, fw, oc]"
    and rb: "le_fit (column dm rb) = Inr le_rb"
    and fw: "le_fit (column dm fw) = Inr le_fw"
    and oc: "le_fit (column dm oc) = Inr le_oc"
    and lons: "map_err (as_float L) (column dm lon) = Inr lons"
    and lats: "map_err (as_float L) (column dm lat) = Inr lats"
    and fin: "list_all not_infinite lons" "list_all not_infinite lats" "lons \<noteq> []"
    and y: "le_fit (column dm ct) = Inr le_y"
    and fit: "\<And>X. rf_fit L X (map (index_of (classes le_y)) (column dm ct)) = Inr forest"
  shows "\<exists>t. train_model L df = Inr t \<and> df_model t = dm \<and> le_target t = le_y \<and> rf t = forest \<and>
           label_encoders t =
             [(''reported_by'', le_rb), (''falls_within'', le_fw), (''last_outcome_category'', le_oc)]"
proof -
  from scaler_fit_transform_two[OF fin] obtain sc xs ys where
    sc: "scaler_fit_transform [lons, lats] = Inr (sc, [xs, ys])" by blast
  show ?thesis
    unfolding train_model_def
    by (simp add: bind_err_def Let_def dm0 ct dm[symmetric] ps lons lats sc fit
        le_fit_transform_fitted[OF rb] le_fit_transform_fitted[OF fw]
        le_fit_transform_fitted[OF oc] le_fit_transform_fitted[OF y])
qed

lemma example_steps:
  "dropna cleaned_training [''lsoa_code'', ''lsoa_name''] = Inr dropped_training"
  "getitem dropped_training ''crime_type'' TypeError = Inr 9"
  "model_frame_example = set_column 9 (collapse (column dropped_training 9)) dropped_training"
  "select_features model_frame_example = Inr [4, 5, 2, 3, 10]"
  "le_fit (column model_frame_example 2) = Inr \<lparr>classes = [S ''Humberside Police'']\<rparr>"
  "le_fit (column model_frame_example 3) = Inr \<lparr>classes = [S ''Humberside Police'']\<rparr>"
  "le_fit (column model_frame_example 10) = Inr \<lparr>classes = [S ''Under investigation'', F NaN]\<rparr>"
  "map_err (as_float example_lib) (column model_frame_example 4) = Inr [Fin (-1.3), Fin 0.7]"
  "map_err (as_float example_lib) (column model_frame_example 5) = Inr [Fin 52.7, Fin 54.7]"
  "le_fit (column model_frame_example 9) = Inr \<lparr>classes = [S ''Other'']\<rparr>"
  by code_simp+

lemma example_forest:
  "rf_fit example_lib X (map (index_of (classes \<lparr>classes = [S ''Other'']\<rparr>)) (column model_frame_example 9))
     = Inr (\<lambda>X'. Inr (map (\<lambda>x. 0) X'))"
  by (simp add: example_lib_def first_class_fit_def model_frame_example_def column_def cell_at_def)

lemma example_trained:
  "\<exists>t. train_model example_lib cleaned_training = Inr t \<and> df_model t = model_frame_example \<and>
       le_target t = \<lparr>classes = [S ''Other'']\<rparr> \<and> rf t = (\<lambda>X'. Inr (map (\<lambda>x. 0) X')) \<and>
       label_encoders t =
         [(''reported_by'', \<lparr>classes = [S ''Humberside Police'']\<rparr>),
          (''falls_within'', \<lparr>classes = [S ''Humberside Police'']\<rparr>),
          (''last_outcome_category'', \<lparr>classes = [S ''Under investigation'', F NaN]\<rparr>)]"
  by (rule train_model_succeeds[OF example_steps(1-9) _ _ _ example_steps(10) example_forest]) simp_all

lemma trained_scaler_two:
  assumes "train_model L df = Inr t"
  shows "length (fitted_mean (scaler t)) = 2 \<and> length (fitted_scale (scaler t)) = 2"
proof -
  from train_model_Inr[OF assms] obtain lons lats where
    "scaler_fit [lons, lats] = Inr (scaler t)" by blast
  from scaler_fit_Inr[OF this] show ?thesis by simp
qed

lemma n_samples_pos: "0 < n_samples"
  by (simp add: n_samples_def)

lemma length_feature_rows:
  "length xs = n \<Longrightarrow> length ys = n \<Longrightarrow> length rb = n \<Longrightarrow> length fw = n \<Longrightarrow> length oc = n \<Longrightarrow>
     length (feature_rows xs ys rb fw oc) = n"
  by (simp add: feature_rows_def)

lemma period_succeeds:
  assumes rb: "modal_feature t ''reported_by'' = Inr rb"
    and fw: "modal_feature t ''falls_within'' = Inr fw"
    and oc: "modal_feature t ''last_outcome_category'' = Inr oc"
    and sc: "length (fitted_mean (scaler t)) = 2" "length (fitted_scale (scaler t)) = 2"
    and rf: "rf t = (\<lambda>X'. Inr (map (\<lambda>x. c) X'))"
    and c: "c < length (classes (le_target t))"
  shows "\<exists>d. period t b m g = Inr (d, snd (snd (draw_coordinates b g)))"
proof -
  obtain lons lats g1 where dc: "draw_coordinates b g = (lons, lats, g1)"
    by (cases "draw_coordinates b g") auto
  have ll: "length lons = n_samples" "length lats = n_samples"
    using length_draws[of b g] by (simp_all add: dc)
  then have ne: "map Fin lons \<noteq> []" using n_samples_pos by auto
  have ca: "check_array [map Fin lons, map Fin lats]
      = Inr [map feature_value (map Fin lons), map feature_value (map Fin lats)]"
    by (rule check_array_two[OF _ _ ne]) (simp_all add: list_all_iff)
  obtain m1 m2 where m: "fitted_mean (scaler t) = [m1, m2]"
    using sc(1) by (cases "fitted_mean (scaler t)"; simp; rename_tac a as; case_tac as; simp)
  obtain s1 s2 where s: "fitted_scale (scaler t) = [s1, s2]"
    using sc(2) by (cases "fitted_scale (scaler t)"; simp; rename_tac a as; case_tac as; simp)
  define xs where "xs = map (standardize m1 s1) (map feature_value (map Fin lons))"
  define ys where "ys = map (standardize m2 s2) (map feature_value (map Fin lats))"
  have st: "scaler_transform (scaler t) [map Fin lons, map Fin lats] = Inr [xs, ys]"
    by (simp add: scaler_transform_def ca bind_err_def m s xs_def ys_def)
  have lx: "length xs = n_samples" "length ys = n_samples"
    by (simp_all add: xs_def ys_def ll)
  have lf: "length (feature_rows xs ys rb fw oc) = n_samples"
    by (rule length_feature_rows[OF lx modal_feature_length[OF rb] modal_feature_length[OF fw]
          modal_feature_length[OF oc]])
  have inv: "le_inverse_transform (le_target t) (map (\<lambda>x. c) (feature_rows xs ys rb fw oc))
      = Inr (map (\<lambda>i. classes (le_target t) ! i) (map (\<lambda>x. c) (feature_rows xs ys rb fw oc)))"
    using c by (simp add: le_inverse_transform_def list_ex_iff)
  show ?thesis
    unfolding period_def dc
    by (simp add: bind_err_def rb fw oc st rf inv lf)
qed

lemma future_loop_succeeds:
  assumes rb: "modal_feature t ''reported_by'' = Inr rb"
    and fw: "modal_feature t ''falls_within'' = Inr fw"
    and oc: "modal_feature t ''last_outcome_category'' = Inr oc"
    and sc: "length (fitted_mean (scaler t)) = 2" "length (fitted_scale (scaler t)) = 2"
    and rf: "rf t = (\<lambda>X'. Inr (map (\<lambda>x. c) X'))"
    and c: "c < length (classes (le_target t))"
  shows "\<exists>fl g'. future_loop t b ms g = Inr (fl, g')"
proof (induction ms arbitrary: g)
  case Nil
  show ?case by simp
next
  case (Cons m ms)
  from period_succeeds[OF rb fw oc sc rf c, of b m g] obtain d where
    p: "period t b m g = Inr (d, snd (snd (draw_coordinates b g)))" by blast
  from Cons.IH[of "snd (snd (draw_coordinates b g))"] obtain fl g' where
    "future_loop t b ms (snd (snd (draw_coordinates b g))) = Inr (fl, g')" by blast
  then show ?case using p by (simp add: bind_err_def)
qed

lemma modal_feature_fitted:
  assumes "map_of (label_encoders t) name = Some enc"
    and "getitem (df_model t) name TypeError = Inr i"
    and "mode0 (column (df_model t) i) = Inr v"
    and "v \<in> set (classes enc)"
  shows "modal_feature t name = Inr (replicate n_samples (index_of (classes enc) v))"
  using assms by (simp add: modal_feature_def bind_err_def modal_codes_def le_transform_replicate)

lemma example_modes:
  "getitem model_frame_example ''reported_by'' TypeError = Inr 2"
  "getitem model_frame_example ''falls_within'' TypeError = Inr 3"
  "getitem model_frame_example ''last_outcome_category'' TypeError = Inr 10"
  "mode0 (column model_frame_example 2) = Inr (S ''Humberside Police'')"
  "mode0 (column model_frame_example 3) = Inr (S ''Humberside Police'')"
  "mode0 (column model_frame_example 10) = Inr (S ''Under investigation'')"
  by code_simp+

lemma example_bounds: "bounding_box_of model_frame_example = Inr example_box"
  by code_simp

lemma main_example: "\<exists>fut g'. main example_lib raw_training g = Inr (fut, g')"
proof -
  from example_trained obtain t where
    t: "train_model example_lib cleaned_training = Inr t" and
    dm: "df_model t = model_frame_example" and
    le: "le_target t = \<lparr>classes = [S ''Other'']\<rparr>" and
    rf: "rf t = (\<lambda>X'. Inr (map (\<lambda>x. 0) X'))" and
    les: "label_encoders t =
         [(''reported_by'', \<lparr>classes = [S ''Humberside Police'']\<rparr>),
          (''falls_within'', \<lparr>classes = [S ''Humberside Police'']\<rparr>),
          (''last_outcome_category'', \<lparr>classes = [S ''Under investigation'', F NaN]\<rparr>)]"
    by blast
  have rb: "modal_feature t ''reported_by'' = Inr (replicate n_samples 0)"
    using modal_feature_fitted[of t "''reported_by''" "\<lparr>classes = [S ''Humberside Police'']\<rparr>" 2
        "S ''Humberside Police''"]
    by (simp add: les dm example_modes)
  have fw: "modal_feature t ''falls_within'' = Inr (replicate n_samples 0)"
    using modal_feature_fitted[of t "''falls_within''" "\<lparr>classes = [S ''Humberside Police'']\<rparr>" 3
        "S ''Humberside Police''"]
    by (simp add: les dm example_modes)
  have oc: "modal_feature t ''last_outcome_category'' = Inr (replicate n_samples 0)"
    using modal_feature_fitted[of t "''last_outcome_category''"
        "\<lparr>classes = [S ''Under investigation'', F NaN]\<rparr>" 10 "S ''Under investigation''"]
    by (simp add: les dm example_modes)
  have c: "0 < length (classes (le_target t))" by (simp add: le)
  from future_loop_succeeds[OF rb fw oc
      trained_scaler_two[OF t, THEN conjunct1] trained_scaler_two[OF t, THEN conjunct2] rf c,
      of example_box periods g]
  obtain fl g' where "future_loop t example_box periods g = Inr (fl, g')" by blast
  then show ?thesis
    by (simp add: main_def bind_err_def clean_training t predict_future_def dm example_bounds)
qed

section \<open>Period coverage and the pivot\<close>

text \<open>
  Claim C6. Whenever the pipeline returns a future-incident collection, its periods are
  exactly 1 to 6, it has 5000 records for each period, 30000 in all, and for each period
  the entries of the pivot's row add up to 5000.
\<close>

theorem period_coverage:
  assumes "main L raw g = Inr (fut, g')"
  shows "pivot_index fut = [1, 2, 3, 4, 5, 6] \<and>
         length fut = 30000 \<and>
         (\<forall>m \<in> {1, 2, 3, 4, 5, 6}.
            length (filter (\<lambda>r. simulated_month r = m) fut) = 5000 \<and>
            pivot_row_sum fut m = 5000)"
proof -
  from main_Inr[OF assms] obtain df t b fl where
    c: "clean L raw = Inr df" and t: "train_model L df = Inr t" and
    l: "future_loop t b periods g = Inr (fl, g')" and fut: "fut = concat fl"
    by blast
  have months: "map simulated_month fut = concat (map (replicate n_samples) periods)"
    unfolding fut by (rule months_of_loop[OF l])
  have dp: "distinct periods" by (simp add: periods_def)
  have n: "n_samples = 5000" by (simp add: n_samples_def)
  have cnt: "length (filter (\<lambda>r. simulated_month r = m) fut) = (if m \<in> set periods then 5000 else 0)"
    for m
    unfolding length_filter_map months count_list_concat_replicate[OF dp] n ..
  have "set (map predicted_crime_type fut) \<subseteq> set (classes (le_target t))"
    unfolding fut by (rule labels_of_loop[OF l])
  then have nm: "\<not> list_ex isna (map predicted_crime_type fut)"
    using target_not_missing[OF c t] by (auto simp: list_ex_iff)
  have sums: "pivot_row_sum fut m = (if m \<in> set periods then 5000 else 0)" for m
    using pivot_row_sum_eq[OF nm] cnt by simp
  have "length (map simulated_month fut) = n_samples * length periods"
    unfolding months by (rule length_concat_replicate)
  then have len: "length fut = 30000"
    by (simp add: n periods_eq)
  have "set (map simulated_month fut) = set periods"
    unfolding months by (rule set_concat_replicate) (simp add: n)
  then have sm: "set (map simulated_month fut) = {1..<7}"
    by (simp add: periods_def)
  have "pivot_index fut = sorted_list_of_set (set (map simulated_month fut))"
    unfolding pivot_index_def by (rule sorted_list_of_set_sort_remdups[symmetric])
  then have idx: "pivot_index fut = [1, 2, 3, 4, 5, 6]"
    unfolding sm using periods_eq by (simp add: periods_def)
  have ps: "set periods = {1, 2, 3, 4, 5, 6}" by (simp add: periods_eq)
  show ?thesis using cnt sums len idx unfolding ps by simp
qed

theorem period_coverage_witness:
  "\<exists>fut g'. main example_lib raw_training halves = Inr (fut, g') \<and>
      pivot_index fut = [1, 2, 3, 4, 5, 6] \<and> length fut = 30000 \<and>
      length (filter (\<lambda>r. simulated_month r = 6) fut) = 5000 \<and> pivot_row_sum fut 6 = 5000"
proof -
  from main_example[of halves] obtain fut g' where
    m: "main example_lib raw_training halves = Inr (fut, g')" by blast
  from period_coverage[OF m] m show ?thesis by auto
qed

section \<open>The inference path and the encoders\<close>

text \<open>
  Claim C10. After a \<open>train_model\<close> that returned, for each of the three categorical
  features the loop's transform of the feature's mode never raises the unseen-label
  error: the encoder stored for the feature was fitted on the very column whose mode is
  taken, so the mode, when there is one, is a class, and the transform returns 5000
  times its code. A column with a value that is not missing has a mode; for a column
  with none, taking position 0 of the empty mode raises a KeyError before any transform.
\<close>

theorem inference_never_unseen:
  assumes t: "train_model L df = Inr t" and n: "name \<in> set categorical"
  shows "modal_feature t name \<noteq> Inl unseen_labels \<and>
         (\<exists>i enc. positions (columns (df_model t)) name = [i] \<and>
            map_of (label_encoders t) name = Some enc \<and>
            le_fit (column (df_model t) i) = Inr enc \<and>
            (\<forall>v. mode0 (column (df_model t) i) = Inr v \<longrightarrow>
               v \<in> set (classes enc) \<and>
               modal_feature t name = Inr (replicate n_samples (index_of (classes enc) v))) \<and>
            (present (column (df_model t) i) \<noteq> [] \<longrightarrow>
               (\<exists>v. mode0 (column (df_model t) i) = Inr v)))"
proof -
  from train_model_Inr[OF t] obtain rb fw oc le_rb le_fw le_oc where
    p: "positions (columns (df_model t)) ''reported_by'' = [rb]"
       "positions (columns (df_model t)) ''falls_within'' = [fw]"
       "positions (columns (df_model t)) ''last_outcome_category'' = [oc]" and
    les: "label_encoders t =
       [(''reported_by'', le_rb), (''falls_within'', le_fw), (''last_outcome_category'', le_oc)]" and
    f: "le_fit (column (df_model t) rb) = Inr le_rb"
       "le_fit (column (df_model t) fw) = Inr le_fw"
       "le_fit (column (df_model t) oc) = Inr le_oc"
    by blast
  from n p les f obtain i enc where
    pi: "positions (columns (df_model t)) name = [i]" and
    mo: "map_of (label_encoders t) name = Some enc" and
    fit: "le_fit (column (df_model t) i) = Inr enc"
    by (auto simp: categorical_def)
  have mf: "modal_feature t name = modal_codes enc (column (df_model t) i)"
    by (simp add: modal_feature_def mo getitem_def pi bind_err_def)
  show ?thesis
    using modal_codes_fitted[OF fit] pi mo fit unfolding mf by blast
qed

theorem inference_never_unseen_witness:
  "\<exists>t. train_model example_lib cleaned_training = Inr t \<and>
       modal_feature t ''last_outcome_category'' \<noteq> Inl unseen_labels \<and>
       modal_feature t ''last_outcome_category'' = Inr (replicate n_samples 0)"
proof -
  from example_trained obtain t where
    t: "train_model example_lib cleaned_training = Inr t" and
    dm: "df_model t = model_frame_example" and
    les: "label_encoders t =
         [(''reported_by'', \<lparr>classes = [S ''Humberside Police'']\<rparr>),
          (''falls_within'', \<lparr>classes = [S ''Humberside Police'']\<rparr>),
          (''last_outcome_category'', \<lparr>classes = [S ''Under investigation'', F NaN]\<rparr>)]"
    by blast
  have n: "''last_outcome_category'' \<in> set categorical" by (simp add: categorical_def)
  from inference_never_unseen[OF t n] obtain i enc where
    1: "modal_feature t ''last_outcome_category'' \<noteq> Inl unseen_labels" and
    pi: "positions (columns (df_model t)) ''last_outcome_category'' = [i]" and
    mo: "map_of (label_encoders t) ''last_outcome_category'' = Some enc" and
    2: "\<forall>v. mode0 (column (df_model t) i) = Inr v \<longrightarrow>
          modal_feature t ''last_outcome_category'' = Inr (replicate n_samples (index_of (classes enc) v))"
    by blast
  have i: "i = 10" using pi getitem_Inr[OF example_modes(3)] by (simp add: dm)
  have enc: "enc = \<lparr>classes = [S ''Under investigation'', F NaN]\<rparr>" using mo by (simp add: les)
  have "modal_feature t ''last_outcome_category'' = Inr (replicate n_samples 0)"
    using 2[rule_format, of "S ''Under investigation''"] example_modes(6)
    by (simp add: i dm enc)
  then show ?thesis using t 1 by blast
qed

lemma le_transform_fitted:
  assumes "le_fit col = Inr enc"
  shows "le_transform enc ys =
     (if set ys \<subseteq> set col then Inr (map (index_of (classes enc)) ys) else Inl unseen_labels)"
  using le_fit_classes(1)[OF assms] by (auto simp: le_transform_def list_ex_iff)

lemma period_same_draws:
  assumes "period t b m g = Inr (d, g1)" and "period t b m g2 = Inr (d', g2')"
    and "fst (draw_coordinates b g) = fst (draw_coordinates b g2)"
    and "fst (snd (draw_coordinates b g)) = fst (snd (draw_coordinates b g2))"
  shows "d = d'"
proof -
  obtain lons lats ga where dc: "draw_coordinates b g = (lons, lats, ga)"
    by (cases "draw_coordinates b g") auto
  obtain gb where dc2: "draw_coordinates b g2 = (lons, lats, gb)"
    using assms(3,4) dc by (cases "draw_coordinates b g2") auto
  show ?thesis
    using assms(1,2) unfolding period_def dc dc2
    by (auto simp: bind_err_def split: sum.splits list.splits if_splits)
qed

lemma example_outcomes: "column model_frame_example 10 = [S ''Under investigation'', F NaN]"
  by code_simp

lemma example_modal_features:
  assumes dm: "df_model t = model_frame_example"
    and les: "label_encoders t =
         [(''reported_by'', \<lparr>classes = [S ''Humberside Police'']\<rparr>),
          (''falls_within'', \<lparr>classes = [S ''Humberside Police'']\<rparr>),
          (''last_outcome_category'', \<lparr>classes = [S ''Under investigation'', F NaN]\<rparr>)]"
  shows "modal_feature t ''reported_by'' = Inr (replicate n_samples 0)"
    and "modal_feature t ''falls_within'' = Inr (replicate n_samples 0)"
    and "modal_feature t ''last_outcome_category'' = Inr (replicate n_samples 0)"
  using modal_feature_fitted[of t "''reported_by''" "\<lparr>classes = [S ''Humberside Police'']\<rparr>" 2
        "S ''Humberside Police''"]
    modal_feature_fitted[of t "''falls_within''" "\<lparr>classes = [S ''Humberside Police'']\<rparr>" 3
        "S ''Humberside Police''"]
    modal_feature_fitted[of t "''last_outcome_category''"
        "\<lparr>classes = [S ''Under investigation'', F NaN]\<rparr>" 10 "S ''Under investigation''"]
  by (simp_all add: les dm example_modes)

lemma encoder_codes_and_periods:
  assumes t: "train_model L df = Inr t" and n: "name \<in> set categorical"
  shows "(\<exists>i enc. positions (columns (df_model t)) name = [i] \<and>
            map_of (label_encoders t) name = Some enc \<and>
            (\<forall>ys. le_transform enc ys =
               (if set ys \<subseteq> set (column (df_model t) i)
                then Inr (map (index_of (classes enc)) ys) else Inl unseen_labels)) \<and>
            (\<forall>ys. set ys \<subseteq> set (column (df_model t) i) \<longrightarrow>
               le_inverse_transform enc (map (index_of (classes enc)) ys) = Inr ys)) \<and>
         (\<forall>b m g d g1 m' g2 d' g2'.
            period t b m g = Inr (d, g1) \<and> period t b m' g2 = Inr (d', g2') \<longrightarrow>
            map reported_by d = map reported_by d' \<and>
            map falls_within d = map falls_within d' \<and>
            map last_outcome_category d = map last_outcome_category d' \<and>
            (m = m' \<and> fst (draw_coordinates b g) = fst (draw_coordinates b g2) \<and>
             fst (snd (draw_coordinates b g)) = fst (snd (draw_coordinates b g2)) \<longrightarrow> d = d'))"
proof -
  from train_model_Inr[OF t] obtain rb fw oc le_rb le_fw le_oc where
    p: "positions (columns (df_model t)) ''reported_by'' = [rb]"
       "positions (columns (df_model t)) ''falls_within'' = [fw]"
       "positions (columns (df_model t)) ''last_outcome_category'' = [oc]" and
    les: "label_encoders t =
       [(''reported_by'', le_rb), (''falls_within'', le_fw), (''last_outcome_category'', le_oc)]" and
    f: "le_fit (column (df_model t) rb) = Inr le_rb"
       "le_fit (column (df_model t) fw) = Inr le_fw"
       "le_fit (column (df_model t) oc) = Inr le_oc"
    by blast
  from n p les f obtain i enc where
    pi: "positions (columns (df_model t)) name = [i]" and
    mo: "map_of (label_encoders t) name = Some enc" and
    fit: "le_fit (column (df_model t) i) = Inr enc"
    by (auto simp: categorical_def)
  have inv: "le_inverse_transform enc (map (index_of (classes enc)) ys) = Inr ys"
    if "set ys \<subseteq> set (column (df_model t) i)" for ys
    using that le_fit_classes(1)[OF fit] by (simp add: le_inverse_codes)
  have 1: "\<exists>i enc. positions (columns (df_model t)) name = [i] \<and>
            map_of (label_encoders t) name = Some enc \<and>
            (\<forall>ys. le_transform enc ys =
               (if set ys \<subseteq> set (column (df_model t) i)
                then Inr (map (index_of (classes enc)) ys) else Inl unseen_labels)) \<and>
            (\<forall>ys. set ys \<subseteq> set (column (df_model t) i) \<longrightarrow>
               le_inverse_transform enc (map (index_of (classes enc)) ys) = Inr ys)"
    using pi mo le_transform_fitted[OF fit] inv by blast
  have 2: "map reported_by d = map reported_by d' \<and>
            map falls_within d = map falls_within d' \<and>
            map last_outcome_category d = map last_outcome_category d' \<and>
            (m = m' \<and> fst (draw_coordinates b g) = fst (draw_coordinates b g2) \<and>
             fst (snd (draw_coordinates b g)) = fst (snd (draw_coordinates b g2)) \<longrightarrow> d = d')"
    if a: "period t b m g = Inr (d, g1)" and b: "period t b m' g2 = Inr (d', g2')"
    for b m g d g1 m' g2 d' g2'
    using period_Inr[OF a] period_Inr[OF b] period_same_draws[OF a, of g2 d' g2'] b
    by auto
  show ?thesis using 1 2 by blast
qed

lemma scaler_fit_values:
  assumes "scaler_fit [a, b] = Inr sc"
  shows "fitted_mean sc = [nanmean (map feature_value a), nanmean (map feature_value b)] \<and>
         fitted_scale sc = [column_scale (map feature_value a), column_scale (map feature_value b)]"
proof -
  from assms obtain cols where c: "check_array [a, b] = Inr cols"
    and s: "sc = \<lparr>fitted_mean = map nanmean cols, fitted_scale = map column_scale cols\<rparr>"
    unfolding scaler_fit_def using bind_err_Inr[of "check_array [a, b]"] by fastforce
  show ?thesis using check_array_Inr[OF c] s by simp
qed

lemma scaler_transform_fitted:
  assumes "fitted_mean sc = [m1, m2]" "fitted_scale sc = [s1, s2]"
    and "scaler_transform sc [A, B] = Inr XS"
  shows "XS = [map (\<lambda>x. standardize m1 s1 (feature_value x)) A,
               map (\<lambda>y. standardize m2 s2 (feature_value y)) B]"
proof -
  from assms(3) obtain cols where c: "check_array [A, B] = Inr cols" and
    t: "(if length cols \<noteq> length (fitted_mean sc)
         then Inl (ValueError ''X has a different number of features'')
         else Inr (map (\<lambda>(c, m, s). map (standardize m s) c)
                 (zip cols (zip (fitted_mean sc) (fitted_scale sc))))) = Inr XS"
    unfolding scaler_transform_def using bind_err_Inr[of "check_array [A, B]"] by fastforce
  have cols: "cols = [map feature_value A, map feature_value B]"
    using check_array_Inr[OF c] by simp
  show ?thesis using t by (simp add: cols assms(1,2) comp_def)
qed

lemma modal_feature_coded:
  assumes "map_of (label_encoders t) name = Some enc"
    and "positions (columns (df_model t)) name = [i]"
    and "le_fit (column (df_model t) i) = Inr enc"
    and "modal_feature t name = Inr codes"
  shows "coded_mode enc (column (df_model t) i) codes"
proof -
  have mf: "modal_feature t name = modal_codes enc (column (df_model t) i)"
    by (simp add: modal_feature_def assms(1) getitem_def assms(2) bind_err_def)
  from assms(4)[unfolded mf] obtain v where v: "mode0 (column (df_model t) i) = Inr v"
    unfolding modal_codes_def using bind_err_Inr by fastforce
  from modal_codes_fitted[OF assms(3)] v assms(4)[unfolded mf] show ?thesis
    unfolding coded_mode_def by auto
qed

lemma future_loop_periods:
  assumes "future_loop t b ms g = Inr (fl, g')"
  shows "\<forall>d \<in> set fl. \<exists>m g0 g1. period t b m g0 = Inr (d, g1)"
  using assms
proof (induction ms arbitrary: g fl)
  case Nil
  then show ?case by simp
next
  case (Cons m ms)
  from Cons.prems obtain d g1 rest where
    p: "period t b m g = Inr (d, g1)" and
    l: "future_loop t b ms g1 = Inr (rest, g')" and fl: "fl = d # rest"
    by (auto simp: bind_err_def split: sum.splits)
  show ?case using Cons.IH[OF l] p unfolding fl by auto
qed

lemma period_fitted:
  assumes t: "train_model L df = Inr t"
  shows "\<exists>lon lat rb fw oc le_rb le_fw le_oc lons lats.
     positions (columns (df_model t)) ''longitude'' = [lon] \<and>
     positions (columns (df_model t)) ''latitude'' = [lat] \<and>
     positions (columns (df_model t)) ''reported_by'' = [rb] \<and>
     positions (columns (df_model t)) ''falls_within'' = [fw] \<and>
     positions (columns (df_model t)) ''last_outcome_category'' = [oc] \<and>
     label_encoders t =
       [(''reported_by'', le_rb), (''falls_within'', le_fw), (''last_outcome_category'', le_oc)] \<and>
     le_fit (column (df_model t) rb) = Inr le_rb \<and>
     le_fit (column (df_model t) fw) = Inr le_fw \<and>
     le_fit (column (df_model t) oc) = Inr le_oc \<and>
     map_err (as_float L) (column (df_model t) lon) = Inr lons \<and>
     map_err (as_float L) (column (df_model t) lat) = Inr lats \<and>
     fitted_mean (scaler t) = [nanmean (map feature_value lons), nanmean (map feature_value lats)] \<and>
     fitted_scale (scaler t) =
       [column_scale (map feature_value lons), column_scale (map feature_value lats)] \<and>
     (\<forall>A B XS. scaler_transform (scaler t) [A, B] = Inr XS \<longrightarrow>
        XS = [map (\<lambda>x. standardize (nanmean (map feature_value lons))
                        (column_scale (map feature_value lons)) (feature_value x)) A,
              map (\<lambda>y. standardize (nanmean (map feature_value lats))
                        (column_scale (map feature_value lats)) (feature_value y)) B]) \<and>
     (\<forall>b m g d g1. period t b m g = Inr (d, g1) \<longrightarrow>
        fitted_batch t lons lats rb fw oc le_rb le_fw le_oc
          (fst (draw_coordinates b g)) (fst (snd (draw_coordinates b g))) d) \<and>
     (\<forall>b ms g fl g'. future_loop t b ms g = Inr (fl, g') \<longrightarrow>
        (\<forall>d \<in> set fl. \<exists>g0. fitted_batch t lons lats rb fw oc le_rb le_fw le_oc
          (fst (draw_coordinates b g0)) (fst (snd (draw_coordinates b g0))) d))"
proof -
  from train_model_Inr[OF t] obtain lon lat rb fw oc le_rb le_fw le_oc lons lats where
    p: "positions (columns (df_model t)) ''longitude'' = [lon]"
       "positions (columns (df_model t)) ''latitude'' = [lat]"
       "positions (columns (df_model t)) ''reported_by'' = [rb]"
       "positions (columns (df_model t)) ''falls_within'' = [fw]"
       "positions (columns (df_model t)) ''last_outcome_category'' = [oc]" and
    les: "label_encoders t =
       [(''reported_by'', le_rb), (''falls_within'', le_fw), (''last_outcome_category'', le_oc)]" and
    f: "le_fit (column (df_model t) rb) = Inr le_rb"
       "le_fit (column (df_model t) fw) = Inr le_fw"
       "le_fit (column (df_model t) oc) = Inr le_oc" and
    fl: "map_err (as_float L) (column (df_model t) lon) = Inr lons"
        "map_err (as_float L) (column (df_model t) lat) = Inr lats" and
    sc: "scaler_fit [lons, lats] = Inr (scaler t)"
    by blast
  note sv = scaler_fit_values[OF sc]
  have ms: "fitted_mean (scaler t) = [nanmean (map feature_value lons), nanmean (map feature_value lats)]"
    and ss: "fitted_scale (scaler t) =
       [column_scale (map feature_value lons), column_scale (map feature_value lats)]"
    using sv by simp_all
  note tr = scaler_transform_fitted[OF ms ss]
  have per: "fitted_batch t lons lats rb fw oc le_rb le_fw le_oc
          (fst (draw_coordinates b g)) (fst (snd (draw_coordinates b g))) d"
    if a: "period t b m g = Inr (d, g1)" for b m g d g1
  proof -
    from period_Inr[OF a] obtain crb cfw coc m1 s1 m2 s2 where
      mf: "modal_feature t ''reported_by'' = Inr crb"
          "modal_feature t ''falls_within'' = Inr cfw"
          "modal_feature t ''last_outcome_category'' = Inr coc" and
      fm: "fitted_mean (scaler t) = [m1, m2]" "take 2 (fitted_scale (scaler t)) = [s1, s2]" and
      lo: "map longitude d = map (\<lambda>x. standardize m1 s1 (Some x)) (fst (draw_coordinates b g))" and
      la: "map latitude d = map (\<lambda>y. standardize m2 s2 (Some y)) (fst (snd (draw_coordinates b g)))" and
      cs: "map reported_by d = crb" "map falls_within d = cfw" "map last_outcome_category d = coc"
      by blast
    have e: "m1 = nanmean (map feature_value lons)" "m2 = nanmean (map feature_value lats)"
      "s1 = column_scale (map feature_value lons)" "s2 = column_scale (map feature_value lats)"
      using fm by (simp_all add: ms ss)
    have c1: "coded_mode le_rb (column (df_model t) rb) crb"
      by (rule modal_feature_coded[OF _ p(3) f(1) mf(1)]) (simp add: les)
    have c2: "coded_mode le_fw (column (df_model t) fw) cfw"
      by (rule modal_feature_coded[OF _ p(4) f(2) mf(2)]) (simp add: les)
    have c3: "coded_mode le_oc (column (df_model t) oc) coc"
      by (rule modal_feature_coded[OF _ p(5) f(3) mf(3)]) (simp add: les)
    show ?thesis
      unfolding fitted_batch_def z_score_def[abs_def]
      using lo la c1 c2 c3 by (simp add: e cs)
  qed
  have loop: "\<forall>d \<in> set fl. \<exists>g0. fitted_batch t lons lats rb fw oc le_rb le_fw le_oc
          (fst (draw_coordinates b g0)) (fst (snd (draw_coordinates b g0))) d"
    if a: "future_loop t b ms g = Inr (fl, g')" for b ms g fl g'
    using future_loop_periods[OF a] per by blast
  show ?thesis
    using p les f fl ms ss tr per loop by blast
qed

lemma example_z_score:
  "nanmean (map feature_value [Fin (-1.3), Fin 0.7]) = Some (-0.3)"
  "column_scale (map feature_value [Fin (-1.3), Fin 0.7]) = Some 1"
  "nanmean (map feature_value [Fin 52.7, Fin 54.7]) = Some 53.7"
  "column_scale (map feature_value [Fin 52.7, Fin 54.7]) = Some 1"
  by (simp_all add: nanmean_def nanvar_def column_scale_def observed_def Let_def)

text \<open>
  Claim C5. For a \<open>train_model\<close> that returned, the transforms use the state fitted
  at training and nothing else. For each categorical feature, transforming values that
  all occurred in the fitted column returns their codes, which \<open>inverse_transform\<close>
  decodes to the same values, and transforming anything else raises the unseen-label
  error, on every call. The scaler's mean and scale are those of the training
  coordinates, and \<open>scaler.transform\<close> standardizes any two columns by exactly them.
  Every batch of a period, and every batch of the loop, stores the z-scores of its draws
  against the training coordinates and the codes of the training modes under the
  training encoders: no period refits or changes a mapping, a mean or a standard
  deviation. Hence any two periods get the same encoded categorical columns, and two
  runs of a period on the same draws return the same batch.
\<close>

theorem encoder_transform_fitted:
  assumes t: "train_model L df = Inr t" and n: "name \<in> set categorical"
  shows "((\<exists>i enc. positions (columns (df_model t)) name = [i] \<and>
            map_of (label_encoders t) name = Some enc \<and>
            (\<forall>ys. le_transform enc ys =
               (if set ys \<subseteq> set (column (df_model t) i)
                then Inr (map (index_of (classes enc)) ys) else Inl unseen_labels)) \<and>
            (\<forall>ys. set ys \<subseteq> set (column (df_model t) i) \<longrightarrow>
               le_inverse_transform enc (map (index_of (classes enc)) ys) = Inr ys)) \<and>
         (\<forall>b m g d g1 m' g2 d' g2'.
            period t b m g = Inr (d, g1) \<and> period t b m' g2 = Inr (d', g2') \<longrightarrow>
            map reported_by d = map reported_by d' \<and>
            map falls_within d = map falls_within d' \<and>
            map last_outcome_category d = map last_outcome_category d' \<and>
            (m = m' \<and> fst (draw_coordinates b g) = fst (draw_coordinates b g2) \<and>
             fst (snd (draw_coordinates b g)) = fst (snd (draw_coordinates b g2)) \<longrightarrow> d = d'))) \<and>
    (\<exists>lon lat rb fw oc le_rb le_fw le_oc lons lats.
     positions (columns (df_model t)) ''longitude'' = [lon] \<and>
     positions (columns (df_model t)) ''latitude'' = [lat] \<and>
     positions (columns (df_model t)) ''reported_by'' = [rb] \<and>
     positions (columns (df_model t)) ''falls_within'' = [fw] \<and>
     positions (columns (df_model t)) ''last_outcome_category'' = [oc] \<and>
     label_encoders t =
       [(''reported_by'', le_rb), (''falls_within'', le_fw), (''last_outcome_category'', le_oc)] \<and>
     le_fit (column (df_model t) rb) = Inr le_rb \<and>
     le_fit (column (df_model t) fw) = Inr le_fw \<and>
     le_fit (column (df_model t) oc) = Inr le_oc \<and>
     map_err (as_float L) (column (df_model t) lon) = Inr lons \<and>
     map_err (as_float L) (column (df_model t) lat) = Inr lats \<and>
     fitted_mean (scaler t) = [nanmean (map feature_value lons), nanmean (map feature_value lats)] \<and>
     fitted_scale (scaler t) =
       [column_scale (map feature_value lons), column_scale (map feature_value lats)] \<and>
     (\<forall>A B XS. scaler_transform (scaler t) [A, B] = Inr XS \<longrightarrow>
        XS = [map (\<lambda>x. standardize (nanmean (map feature_value lons))
                        (column_scale (map feature_value lons)) (feature_value x)) A,
              map (\<lambda>y. standardize (nanmean (map feature_value lats))
                        (column_scale (map feature_value lats)) (feature_value y)) B]) \<and>
     (\<forall>b m g d g1. period t b m g = Inr (d, g1) \<longrightarrow>
        fitted_batch t lons lats rb fw oc le_rb le_fw le_oc
          (fst (draw_coordinates b g)) (fst (snd (draw_coordinates b g))) d) \<and>
     (\<forall>b ms g fl g'. future_loop t b ms g = Inr (fl, g') \<longrightarrow>
        (\<forall>d \<in> set fl. \<exists>g0. fitted_batch t lons lats rb fw oc le_rb le_fw le_oc
          (fst (draw_coordinates b g0)) (fst (snd (draw_coordinates b g0))) d)))"
  using encoder_codes_and_periods[OF t n] period_fitted[OF t] by (rule conjI)

theorem encoder_transform_fitted_witness:
  "\<exists>t enc d g1 d' g2.
     train_model example_lib cleaned_training = Inr t \<and>
     map_of (label_encoders t) ''last_outcome_category'' = Some enc \<and>
     le_transform enc [S ''Local resolution''] = Inl unseen_labels \<and>
     le_transform enc [F NaN, S ''Under investigation''] = Inr [1, 0] \<and>
     le_inverse_transform enc [1, 0] = Inr [F NaN, S ''Under investigation''] \<and>
     period t example_box 1 halves = Inr (d, g1) \<and>
     period t example_box 2 zeros = Inr (d', g2) \<and>
     map last_outcome_category d = map last_outcome_category d' \<and>
     fitted_mean (scaler t) = [Some (-0.3), Some 53.7] \<and>
     fitted_scale (scaler t) = [Some 1, Some 1] \<and>
     map longitude d' = map (z_score [Fin (-1.3), Fin 0.7]) (fst (draw_coordinates example_box zeros)) \<and>
     map latitude d' = map (z_score [Fin 52.7, Fin 54.7]) (fst (snd (draw_coordinates example_box zeros))) \<and>
     z_score [Fin (-1.3), Fin 0.7] (-1.3) = Some (-1) \<and>
     coded_mode enc (column (df_model t) 10) (map last_outcome_category d')"
proof -
  from example_trained obtain t where
    t: "train_model example_lib cleaned_training = Inr t" and
    dm: "df_model t = model_frame_example" and
    le: "le_target t = \<lparr>classes = [S ''Other'']\<rparr>" and
    rf: "rf t = (\<lambda>X'. Inr (map (\<lambda>x. 0) X'))" and
    les: "label_encoders t =
         [(''reported_by'', \<lparr>classes = [S ''Humberside Police'']\<rparr>),
          (''falls_within'', \<lparr>classes = [S ''Humberside Police'']\<rparr>),
          (''last_outcome_category'', \<lparr>classes = [S ''Under investigation'', F NaN]\<rparr>)]"
    by blast
  have n: "''last_outcome_category'' \<in> set categorical" by (simp add: categorical_def)
  note th = encoder_transform_fitted[OF t n]
  note th1 = th[THEN conjunct1]
  from th1 obtain i enc where
    pi: "positions (columns (df_model t)) ''last_outcome_category'' = [i]" and
    mo: "map_of (label_encoders t) ''last_outcome_category'' = Some enc" and
    tr: "\<forall>ys. le_transform enc ys =
               (if set ys \<subseteq> set (column (df_model t) i)
                then Inr (map (index_of (classes enc)) ys) else Inl unseen_labels)" and
    inv: "\<forall>ys. set ys \<subseteq> set (column (df_model t) i) \<longrightarrow>
               le_inverse_transform enc (map (index_of (classes enc)) ys) = Inr ys"
    by blast
  have i: "i = 10" using pi getitem_Inr[OF example_modes(3)] by (simp add: dm)
  have enc: "enc = \<lparr>classes = [S ''Under investigation'', F NaN]\<rparr>" using mo by (simp add: les)
  have a: "le_transform enc [S ''Local resolution''] = Inl unseen_labels"
    using tr[rule_format, of "[S ''Local resolution'']"] by (simp add: i dm example_outcomes)
  have b: "le_transform enc [F NaN, S ''Under investigation''] = Inr [1, 0]"
    using tr[rule_format, of "[F NaN, S ''Under investigation'']"]
    by (simp add: i dm example_outcomes enc)
  have c: "le_inverse_transform enc [1, 0] = Inr [F NaN, S ''Under investigation'']"
    using inv[rule_format, of "[F NaN, S ''Under investigation'']"]
    by (simp add: i dm example_outcomes enc)
  have cl: "0 < length (classes (le_target t))" by (simp add: le)
  note ps = period_succeeds[OF example_modal_features[OF dm les]
      trained_scaler_two[OF t, THEN conjunct1] trained_scaler_two[OF t, THEN conjunct2] rf cl]
  from ps[of example_box 1 halves] obtain d g1 where
    p1: "period t example_box 1 halves = Inr (d, g1)" by blast
  from ps[of example_box 2 zeros] obtain d' g2 where
    p2: "period t example_box 2 zeros = Inr (d', g2)" by blast
  have same: "map last_outcome_category d = map last_outcome_category d'"
    using th1 p1 p2 by blast
  obtain lon lat rb fw oc le_rb le_fw le_oc lons lats where all:
    "positions (columns (df_model t)) ''longitude'' = [lon] \<and>
     positions (columns (df_model t)) ''latitude'' = [lat] \<and>
     positions (columns (df_model t)) ''reported_by'' = [rb] \<and>
     positions (columns (df_model t)) ''falls_within'' = [fw] \<and>
     positions (columns (df_model t)) ''last_outcome_category'' = [oc] \<and>
     label_encoders t =
       [(''reported_by'', le_rb), (''falls_within'', le_fw), (''last_outcome_category'', le_oc)] \<and>
     le_fit (column (df_model t) rb) = Inr le_rb \<and>
     le_fit (column (df_model t) fw) = Inr le_fw \<and>
     le_fit (column (df_model t) oc) = Inr le_oc \<and>
     map_err (as_float example_lib) (column (df_model t) lon) = Inr lons \<and>
     map_err (as_float example_lib) (column (df_model t) lat) = Inr lats \<and>
     fitted_mean (scaler t) = [nanmean (map feature_value lons), nanmean (map feature_value lats)] \<and>
     fitted_scale (scaler t) =
       [column_scale (map feature_value lons), column_scale (map feature_value lats)] \<and>
     (\<forall>A B XS. scaler_transform (scaler t) [A, B] = Inr XS \<longrightarrow>
        XS = [map (\<lambda>x. standardize (nanmean (map feature_value lons))
                        (column_scale (map feature_value lons)) (feature_value x)) A,
              map (\<lambda>y. standardize (nanmean (map feature_value lats))
                        (column_scale (map feature_value lats)) (feature_value y)) B]) \<and>
     (\<forall>b m g d g1. period t b m g = Inr (d, g1) \<longrightarrow>
        fitted_batch t lons lats rb fw oc le_rb le_fw le_oc
          (fst (draw_coordinates b g)) (fst (snd (draw_coordinates b g))) d) \<and>
     (\<forall>b ms g fl g'. future_loop t b ms g = Inr (fl, g') \<longrightarrow>
        (\<forall>d \<in> set fl. \<exists>g0. fitted_batch t lons lats rb fw oc le_rb le_fw le_oc
          (fst (draw_coordinates b g0)) (fst (snd (draw_coordinates b g0))) d))"
    using th[THEN conjunct2] by (elim exE) (rule that, assumption)
  have plon: "positions (columns (df_model t)) ''longitude'' = [lon]"
    and plat: "positions (columns (df_model t)) ''latitude'' = [lat]"
    and poc: "positions (columns (df_model t)) ''last_outcome_category'' = [oc]"
    and les': "label_encoders t =
       [(''reported_by'', le_rb), (''falls_within'', le_fw), (''last_outcome_category'', le_oc)]"
    and lons: "map_err (as_float example_lib) (column (df_model t) lon) = Inr lons"
    and lats: "map_err (as_float example_lib) (column (df_model t) lat) = Inr lats"
    and fm: "fitted_mean (scaler t) = [nanmean (map feature_value lons), nanmean (map feature_value lats)]"
    and fs: "fitted_scale (scaler t) =
       [column_scale (map feature_value lons), column_scale (map feature_value lats)]"
    and per: "\<forall>b m g d g1. period t b m g = Inr (d, g1) \<longrightarrow>
        fitted_batch t lons lats rb fw oc le_rb le_fw le_oc
          (fst (draw_coordinates b g)) (fst (snd (draw_coordinates b g))) d"
    using all by simp_all
  have sf: "select_features model_frame_example = Inr [4, 5, 2, 3, 10]" by (rule example_steps(4))
  from select_features_Inr[OF sf] have ix: "lon = 4" "lat = 5" "oc = 10"
    using plon plat poc by (simp_all add: dm)
  have lv: "lons = [Fin (-1.3), Fin 0.7]" "lats = [Fin 52.7, Fin 54.7]"
    using lons lats by (simp_all add: ix dm example_steps(8,9))
  have eo: "le_oc = enc" using les' mo by simp
  have fb: "fitted_batch t lons lats rb fw oc le_rb le_fw le_oc
          (fst (draw_coordinates example_box zeros)) (fst (snd (draw_coordinates example_box zeros))) d'"
    using per p2 by blast
  have m: "fitted_mean (scaler t) = [Some (-0.3), Some 53.7]"
    and s: "fitted_scale (scaler t) = [Some 1, Some 1]"
    using fm fs unfolding lv example_z_score by simp_all
  have lo: "map longitude d' = map (z_score [Fin (-1.3), Fin 0.7]) (fst (draw_coordinates example_box zeros))"
    and la: "map latitude d' = map (z_score [Fin 52.7, Fin 54.7]) (fst (snd (draw_coordinates example_box zeros)))"
    and cm: "coded_mode enc (column (df_model t) 10) (map last_outcome_category d')"
    using fb by (simp_all add: fitted_batch_def lv eo ix)
  have z: "z_score [Fin (-1.3), Fin 0.7] (-1.3) = Some (-1)"
    unfolding z_score_def example_z_score by (simp add: standardize_def)
  show ?thesis using t mo a b c p1 p2 same m s lo la z cm by blast
qed

section \<open>Failures of the Classifier Trainer\<close>

text \<open>
  Claim C2, as amended. When no row of the table carries both statistical-area fields,
  the encoded feature matrix has no row and \<open>train_model\<close> raises, whatever the
  library does: the scaler rejects a matrix without rows before the forest is fitted.
  No predictor is returned.
\<close>

theorem train_model_empty_fails:
  assumes "dropna df [''lsoa_code'', ''lsoa_name''] = Inr dm0" and "rows dm0 = []"
  shows "\<exists>e. train_model L df = Inl e"
proof (cases "train_model L df")
  case (Inl e)
  then show ?thesis by blast
next
  case (Inr t)
  from train_model_Inr[OF Inr] obtain dm0' ct lon lat lons lats where
    d: "dropna df [''lsoa_code'', ''lsoa_name''] = Inr dm0'" and
    dm: "df_model t = set_column ct (collapse (column dm0' ct)) dm0'" and
    lons: "map_err (as_float L) (column (df_model t) lon) = Inr lons" and
    lats: "map_err (as_float L) (column (df_model t) lat) = Inr lats" and
    sc: "scaler_fit [lons, lats] = Inr (scaler t)"
    by blast
  have "dm0' = dm0" using d assms(1) by simp
  then have "rows (df_model t) = []" using assms(2) dm by (simp add: set_column_def)
  then have "lons = []" "lats = []"
    using map_err_length[OF lons] map_err_length[OF lats] by (simp_all add: column_def)
  then show ?thesis using scaler_fit_Inr[OF sc] by simp
qed

lemma no_area_dropna:
  "dropna no_area_training [''lsoa_code'', ''lsoa_name''] = Inr (no_area_training\<lparr>rows := []\<rparr>)"
  by code_simp

theorem train_model_empty_fails_witness:
  "dropna no_area_training [''lsoa_code'', ''lsoa_name''] = Inr (no_area_training\<lparr>rows := []\<rparr>) \<and>
   (\<exists>e. train_model example_lib no_area_training = Inl e)"
  using train_model_empty_fails[OF no_area_dropna, of example_lib] no_area_dropna by simp

text \<open>
  Claim C2 as stated also asks for a failure on fewer than two target classes.
  \<open>train_model\<close> has no check of the classes. On the example every category is rare,
  the target collapses to the single class "Other", and a model is returned.
\<close>

theorem train_model_single_class:
  "trained_classes (train_model example_lib cleaned_training) = Inr [S ''Other'']"
  using example_trained by (auto simp: trained_classes_def)

section \<open>The bounding box of a trained model is defined\<close>

text \<open>
  In \<open>main\<close> the training subset comes from a cleaned table and from a training that
  returned: its coordinate columns hold finite floats and it has a row, so the error
  branches of \<open>column_bounds\<close> are never taken there.
\<close>

lemma map_err_finite_float_total:
  "\<forall>c \<in> set col. \<exists>v. c = F (Fin v) \<Longrightarrow>
     \<exists>vs. map_err finite_float col = Inr vs \<and> length vs = length col"
proof (induction col)
  case Nil
  then show ?case by simp
next
  case (Cons c col)
  then obtain v vs where "c = F (Fin v)" "map_err finite_float col = Inr vs" "length vs = length col"
    by auto
  then show ?case by (simp add: bind_err_def)
qed

lemma column_bounds_total:
  assumes "positions (columns dm) name = [i]" and "column dm i \<noteq> []"
    and "\<forall>c \<in> set (column dm i). \<exists>v. c = F (Fin v)"
  shows "\<exists>lo hi. column_bounds dm name = Inr (lo, hi)"
proof -
  from map_err_finite_float_total[OF assms(3)] obtain vs where
    vs: "map_err finite_float (column dm i) = Inr vs" "length vs = length (column dm i)" by blast
  then obtain v ws where "vs = v # ws" using assms(2) by (cases vs) auto
  then show ?thesis
    using vs(1) assms(1) by (simp add: column_bounds_def getitem_def bind_err_def)
qed

lemma as_float_column:
  assumes "map_err (as_float L) col = Inr xs" and "list_all not_infinite xs"
    and "\<forall>c \<in> set col. \<exists>x. c = F x \<and> x \<noteq> NaN"
  shows "\<forall>c \<in> set col. \<exists>v. c = F (Fin v)"
proof
  fix c assume c: "c \<in> set col"
  then obtain k where k: "k < length col" "col ! k = c" by (auto simp: in_set_conv_nth)
  from assms(3) c obtain x where x: "c = F x" "x \<noteq> NaN" by blast
  from map_err_Inr[OF assms(1)] k have "as_float L c = Inr (xs ! k)" "k < length xs"
    by (auto simp: list_all2_conv_all_nth)
  then have "xs ! k = x" "not_infinite (xs ! k)"
    using x assms(2) by (auto simp: as_float_def list_all_length)
  then show "\<exists>v. c = F (Fin v)" using x by (cases x) auto
qed

lemma trained_coordinates_finite:
  assumes c: "clean L raw = Inr df" and t: "train_model L df = Inr t"
  shows "\<exists>lon lat. positions (columns (df_model t)) ''longitude'' = [lon] \<and>
           positions (columns (df_model t)) ''latitude'' = [lat] \<and>
           rows (df_model t) \<noteq> [] \<and>
           (\<forall>c \<in> set (column (df_model t) lon). \<exists>v. c = F (Fin v)) \<and>
           (\<forall>c \<in> set (column (df_model t) lat). \<exists>v. c = F (Fin v))"
proof -
  from clean_Inr[OF c] obtain lon' lat' loc where
    pl: "positions (columns df) ''longitude'' = [lon']" "positions (columns df) ''latitude'' = [lat']" and
    rs: "\<forall>r \<in> set (rows df). cleaned_row lon' lat' loc r \<and>
        (\<forall>i \<in> set (subset_positions (columns df) required). \<not> isna (cell_at r i))"
    by blast
  from train_model_Inr[OF t] obtain dm0 ct lon lat lons lats where
    dm0: "dropna df [''lsoa_code'', ''lsoa_name''] = Inr dm0" and
    ct: "positions (columns dm0) ''crime_type'' = [ct]" and
    dm: "df_model t = set_column ct (collapse (column dm0 ct)) dm0" and
    plon: "positions (columns (df_model t)) ''longitude'' = [lon]" and
    plat: "positions (columns (df_model t)) ''latitude'' = [lat]" and
    lons: "map_err (as_float L) (column (df_model t) lon) = Inr lons" and
    lats: "map_err (as_float L) (column (df_model t) lat) = Inr lats" and
    sc: "scaler_fit [lons, lats] = Inr (scaler t)"
    by blast
  from dropna_Inr[OF dm0] have c0: "columns dm0 = columns df" and
    r0: "set (rows dm0) \<subseteq> set (rows df)" by auto
  have cm: "columns (df_model t) = columns df" by (simp add: dm columns_set_column c0)
  have e: "lon = lon'" "lat = lat'" using plon plat pl by (simp_all add: cm)
  have ne: "ct \<noteq> lon" "ct \<noteq> lat"
    using positions_disjoint[OF ct plon[unfolded cm c0[symmetric]]]
      positions_disjoint[OF ct plat[unfolded cm c0[symmetric]]] by simp_all
  have lc: "length (collapse (column dm0 ct)) = length (rows dm0)"
    by (simp add: length_collapse column_def)
  have cl: "column (df_model t) lon = column dm0 lon" "column (df_model t) lat = column dm0 lat"
    unfolding dm using column_set_column_other[OF lc] ne by simp_all
  have num: "\<exists>x. cell_at r lon = F x \<and> x \<noteq> NaN" "\<exists>y. cell_at r lat = F y \<and> y \<noteq> NaN"
    if "r \<in> set (rows df)" for r
  proof -
    have cr: "cleaned_row lon lat loc r" using rs that e by simp
    have "\<not> isna (cell_at r lat)" "\<not> isna (cell_at r lon)"
      using rs that by (simp_all add: subset_positions_def required_def pl e)
    then show "\<exists>x. cell_at r lon = F x \<and> x \<noteq> NaN" "\<exists>y. cell_at r lat = F y \<and> y \<noteq> NaN"
      using cr by (auto simp: cleaned_row_def cell_at_def isna_def)
  qed
  have pre: "\<forall>c \<in> set (column (df_model t) lon). \<exists>x. c = F x \<and> x \<noteq> NaN"
    "\<forall>c \<in> set (column (df_model t) lat). \<exists>x. c = F x \<and> x \<noteq> NaN"
    using num r0 unfolding cl by (auto simp: column_def)
  from scaler_fit_Inr[OF sc] have ni: "list_all not_infinite lons" "list_all not_infinite lats"
    and nz: "lons \<noteq> [] \<or> lats \<noteq> []" by auto
  have "rows (df_model t) \<noteq> []"
    using nz map_err_length[OF lons] map_err_length[OF lats] by (auto simp: column_def)
  then show ?thesis
    using plon plat as_float_column[OF lons ni(1) pre(1)] as_float_column[OF lats ni(2) pre(2)]
    by blast
qed

lemma main_bounds_defined:
  assumes c: "clean L raw = Inr df" and t: "train_model L df = Inr t"
  shows "\<exists>b. bounding_box_of (df_model t) = Inr b"
proof -
  from trained_coordinates_finite[OF c t] obtain lon lat where
    p: "positions (columns (df_model t)) ''longitude'' = [lon]"
       "positions (columns (df_model t)) ''latitude'' = [lat]" and
    ne: "rows (df_model t) \<noteq> []" and
    f: "\<forall>c \<in> set (column (df_model t) lon). \<exists>v. c = F (Fin v)"
       "\<forall>c \<in> set (column (df_model t) lat). \<exists>v. c = F (Fin v)"
    by blast
  have n: "column (df_model t) lon \<noteq> []" "column (df_model t) lat \<noteq> []"
    using ne by (simp_all add: column_def)
  from column_bounds_total[OF p(1) n(1) f(1)] column_bounds_total[OF p(2) n(2) f(2)]
  show ?thesis by (auto simp: bounding_box_of_def bind_err_def)
qed

section \<open>Bounding box of the samples\<close>

lemma uniform_in_range:
  assumes "unit_samples g" "lo \<le> hi"
  shows "\<forall>x \<in> set (fst (uniform lo hi n g)). lo \<le> x \<and> x \<le> hi"
proof -
  have "lo \<le> lo + (hi - lo) * g i \<and> lo + (hi - lo) * g i \<le> hi" for i
  proof -
    have u: "0 \<le> g i" "g i \<le> 1" using assms(1) by (simp_all add: unit_samples_def less_imp_le)
    have d: "0 \<le> hi - lo" using assms(2) by simp
    have "0 \<le> (hi - lo) * g i" using d u(1) by (rule mult_nonneg_nonneg)
    moreover have "(hi - lo) * g i \<le> (hi - lo) * 1" using u(2) d by (rule mult_left_mono)
    ultimately show ?thesis by simp
  qed
  then show ?thesis by (auto simp: uniform_def)
qed

lemma unit_samples_shift: "unit_samples g \<Longrightarrow> unit_samples (\<lambda>i. g (i + n))"
  by (simp add: unit_samples_def)

lemma map_err_finite_float:
  "map_err finite_float col = Inr vs \<Longrightarrow> col = map (\<lambda>v. F (Fin v)) vs"
proof (induction col arbitrary: vs)
  case Nil
  then show ?case by simp
next
  case (Cons c col)
  from Cons.prems obtain v ws where v: "finite_float c = Inr v" and
    ws: "map_err finite_float col = Inr ws" and vs: "vs = v # ws"
    by (auto simp: bind_err_def split: sum.splits)
  have "c = F (Fin v)" using v by (cases c rule: finite_float.cases) auto
  then show ?case using Cons.IH[OF ws] vs by simp
qed

lemma fold_min_max:
  fixes v :: real
  shows "fold min ws v \<in> set (v # ws) \<and> (\<forall>w \<in> set (v # ws). fold min ws v \<le> w)"
    and "fold max ws v \<in> set (v # ws) \<and> (\<forall>w \<in> set (v # ws). w \<le> fold max ws v)"
proof -
  have 1: "fold min ws v = Min (set (v # ws))" by (simp only: Min.set_eq_fold)
  have 2: "fold max ws v = Max (set (v # ws))" by (simp only: Max.set_eq_fold)
  show "fold min ws v \<in> set (v # ws) \<and> (\<forall>w \<in> set (v # ws). fold min ws v \<le> w)"
    unfolding 1 using Min_in[of "set (v # ws)"] Min_le[of "set (v # ws)"] by auto
  show "fold max ws v \<in> set (v # ws) \<and> (\<forall>w \<in> set (v # ws). w \<le> fold max ws v)"
    unfolding 2 using Max_in[of "set (v # ws)"] Max_ge[of "set (v # ws)"] by auto
qed

lemma column_bounds_Inr:
  assumes "column_bounds dm name = Inr (lo, hi)"
  shows "column_extremes dm name lo hi \<and> lo \<le> hi"
proof -
  from assms obtain i vs where
    i: "getitem dm name TypeError = Inr i" and
    vs: "map_err finite_float (column dm i) = Inr vs" and
    r: "(case vs of [] \<Rightarrow> Inl OverflowError | v # ws \<Rightarrow> Inr (fold min ws v, fold max ws v))
          = (Inr (lo, hi) :: error + real \<times> real)"
    unfolding column_bounds_def by (auto simp: bind_err_def split: sum.splits)
  from r obtain v ws where vw: "vs = v # ws" and lo: "lo = fold min ws v" and hi: "hi = fold max ws v"
    by (cases vs) auto
  have col: "column dm i = map (\<lambda>v. F (Fin v)) vs" by (rule map_err_finite_float[OF vs])
  note mm = fold_min_max[of ws v]
  have a: "lo \<in> set vs" "hi \<in> set vs" "\<forall>w \<in> set vs. lo \<le> w \<and> w \<le> hi"
    using mm unfolding lo hi vw by auto
  then have "lo \<le> hi" by auto
  moreover have "column_extremes dm name lo hi"
    unfolding column_extremes_def
    using getitem_Inr[OF i] a by (intro exI[of _ i]) (auto simp: col)
  ultimately show ?thesis by simp
qed

lemma bounding_box_of_Inr:
  assumes "bounding_box_of dm = Inr b"
  shows "column_extremes dm ''longitude'' (lon_min b) (lon_max b) \<and>
         column_extremes dm ''latitude'' (lat_min b) (lat_max b) \<and>
         lon_min b \<le> lon_max b \<and> lat_min b \<le> lat_max b"
proof -
  from assms obtain lo hi la_lo la_hi where
    1: "column_bounds dm ''longitude'' = Inr (lo, hi)" and
    2: "column_bounds dm ''latitude'' = Inr (la_lo, la_hi)" and
    b: "b = \<lparr>lon_min = lo, lon_max = hi, lat_min = la_lo, lat_max = la_hi\<rparr>"
    unfolding bounding_box_of_def by (auto simp: bind_err_def split: sum.splits)
  show ?thesis using column_bounds_Inr[OF 1] column_bounds_Inr[OF 2] by (simp add: b)
qed

lemma draws_in_box:
  assumes "unit_samples g" "lon_min b \<le> lon_max b" "lat_min b \<le> lat_max b"
  shows "(\<forall>x \<in> set (fst (draw_coordinates b g)). lon_min b \<le> x \<and> x \<le> lon_max b) \<and>
         (\<forall>y \<in> set (fst (snd (draw_coordinates b g))). lat_min b \<le> y \<and> y \<le> lat_max b) \<and>
         unit_samples (snd (snd (draw_coordinates b g)))"
  using uniform_in_range[OF assms(1,2), of n_samples]
    uniform_in_range[OF unit_samples_shift[OF assms(1), of n_samples] assms(3), of n_samples]
    unit_samples_shift[OF assms(1), of "2 * n_samples"]
  by (simp add: draw_coordinates_eq)

lemma period_in_box:
  assumes p: "period t b m g = Inr (d, g')" and u: "unit_samples g"
    and bx: "lon_min b \<le> lon_max b" "lat_min b \<le> lat_max b"
  shows "list_all (sampled_in_box t b) d \<and> unit_samples g'"
proof -
  from period_Inr[OF p] obtain m1 s1 m2 s2 where
    ms: "fitted_mean (scaler t) = [m1, m2]" "take 2 (fitted_scale (scaler t)) = [s1, s2]" and
    lo: "map longitude d = map (\<lambda>x. standardize m1 s1 (Some x)) (fst (draw_coordinates b g))" and
    la: "map latitude d = map (\<lambda>y. standardize m2 s2 (Some y)) (fst (snd (draw_coordinates b g)))" and
    len: "length d = n_samples" and g': "g' = snd (snd (draw_coordinates b g))"
    by blast
  have s: "fitted_scale (scaler t) ! 0 = s1" "fitted_scale (scaler t) ! Suc 0 = s2"
    using arg_cong[OF ms(2), of "\<lambda>l. l ! 0"] arg_cong[OF ms(2), of "\<lambda>l. l ! 1"]
    by simp_all
  note db = draws_in_box[OF u bx]
  have "sampled_in_box t b (d ! k)" if k: "k < length d" for k
  proof -
    let ?x = "fst (draw_coordinates b g) ! k" and ?y = "fst (snd (draw_coordinates b g)) ! k"
    have kl: "k < n_samples" using k len by simp
    have lon: "longitude (d ! k) = standardize m1 s1 (Some ?x)"
      using arg_cong[OF lo, of "\<lambda>l. l ! k"] k kl by (simp add: length_draws)
    have lat: "latitude (d ! k) = standardize m2 s2 (Some ?y)"
      using arg_cong[OF la, of "\<lambda>l. l ! k"] k kl by (simp add: length_draws)
    have box: "in_box b ?x ?y"
      using db kl by (simp add: in_box_def length_draws)
    show ?thesis
      unfolding sampled_in_box_def scaled_longitude_def scaled_latitude_def
      apply (rule exI[of _ ?x])
      apply (rule exI[of _ ?y])
      apply (simp add: lon lat box ms s)
      done
  qed
  then show ?thesis using db g' by (simp add: list_all_length)
qed

lemma future_loop_in_box:
  assumes "future_loop t b ms g = Inr (fl, g')" and "unit_samples g"
    and bx: "lon_min b \<le> lon_max b" "lat_min b \<le> lat_max b"
  shows "list_all (sampled_in_box t b) (concat fl) \<and> unit_samples g'"
  using assms(1,2)
proof (induction ms arbitrary: g fl)
  case Nil
  then show ?case by simp
next
  case (Cons m ms)
  from Cons.prems(1) obtain d g1 rest where
    p: "period t b m g = Inr (d, g1)" and
    l: "future_loop t b ms g1 = Inr (rest, g')" and fl: "fl = d # rest"
    by (auto simp: bind_err_def split: sum.splits)
  from period_in_box[OF p Cons.prems(2) bx] have d: "list_all (sampled_in_box t b) d"
    and u1: "unit_samples g1" by simp_all
  from Cons.IH[OF l u1] d show ?case by (simp add: fl)
qed

lemma example_predicts:
  "\<exists>t fut g'. train_model example_lib cleaned_training = Inr t \<and>
       df_model t = model_frame_example \<and> predict_future t g = Inr (fut, g')"
proof -
  from example_trained obtain t where
    t: "train_model example_lib cleaned_training = Inr t" and
    dm: "df_model t = model_frame_example" and
    le: "le_target t = \<lparr>classes = [S ''Other'']\<rparr>" and
    rf: "rf t = (\<lambda>X'. Inr (map (\<lambda>x. 0) X'))" and
    les: "label_encoders t =
         [(''reported_by'', \<lparr>classes = [S ''Humberside Police'']\<rparr>),
          (''falls_within'', \<lparr>classes = [S ''Humberside Police'']\<rparr>),
          (''last_outcome_category'', \<lparr>classes = [S ''Under investigation'', F NaN]\<rparr>)]"
    by blast
  have c: "0 < length (classes (le_target t))" by (simp add: le)
  from future_loop_succeeds[OF example_modal_features[OF dm les]
      trained_scaler_two[OF t, THEN conjunct1] trained_scaler_two[OF t, THEN conjunct2] rf c,
      of example_box periods g]
  obtain fl g' where "future_loop t example_box periods g = Inr (fl, g')" by blast
  then have "predict_future t g = Inr (concat fl, g')"
    by (simp add: bind_err_def predict_future_def dm example_bounds)
  then show ?thesis using t dm by blast
qed

lemma unit_samples_halves: "unit_samples halves"
  by (simp add: unit_samples_def halves_def)

text \<open>
  Claim C7. When the prediction returns and the generator yields unit samples, the
  bounding box is made of the observed extremes of the training subset's two coordinate
  columns, every sampled longitude and latitude lies in its closed interval, and every
  record of the collection stores the standardization of a point of the box.
\<close>

theorem bounding_box_containment:
  assumes "predict_future t g = Inr (fut, g')" and "unit_samples g"
  shows "\<exists>b. bounding_box_of (df_model t) = Inr b \<and>
           column_extremes (df_model t) ''longitude'' (lon_min b) (lon_max b) \<and>
           column_extremes (df_model t) ''latitude'' (lat_min b) (lat_max b) \<and>
           list_all (\<lambda>x. lon_min b \<le> x \<and> x \<le> lon_max b) (fst (draw_coordinates b g)) \<and>
           list_all (\<lambda>y. lat_min b \<le> y \<and> y \<le> lat_max b) (fst (snd (draw_coordinates b g))) \<and>
           list_all (sampled_in_box t b) fut"
proof -
  from assms(1) obtain b fl where
    b: "bounding_box_of (df_model t) = Inr b" and
    l: "future_loop t b periods g = Inr (fl, g')" and fut: "fut = concat fl"
    unfolding predict_future_def by (auto simp: bind_err_def split: sum.splits)
  note bb = bounding_box_of_Inr[OF b]
  have bx: "lon_min b \<le> lon_max b" "lat_min b \<le> lat_max b" using bb by simp_all
  show ?thesis
    using b bb future_loop_in_box[OF l assms(2) bx] draws_in_box[OF assms(2) bx]
    by (intro exI[of _ b]) (simp add: fut list_all_iff)
qed

theorem bounding_box_containment_witness:
  "\<exists>t fut g'. train_model example_lib cleaned_training = Inr t \<and>
       predict_future t halves = Inr (fut, g') \<and> unit_samples halves \<and>
       bounding_box_of (df_model t) = Inr example_box \<and>
       column_extremes (df_model t) ''longitude'' (lon_min example_box) (lon_max example_box) \<and>
       column_extremes (df_model t) ''latitude'' (lat_min example_box) (lat_max example_box) \<and>
       list_all (\<lambda>x. lon_min example_box \<le> x \<and> x \<le> lon_max example_box)
         (fst (draw_coordinates example_box halves)) \<and>
       list_all (sampled_in_box t example_box) fut"
proof -
  from example_predicts[of halves] obtain t fut g' where
    t: "train_model example_lib cleaned_training = Inr t" and
    dm: "df_model t = model_frame_example" and
    p: "predict_future t halves = Inr (fut, g')"
    by blast
  from bounding_box_containment[OF p unit_samples_halves] obtain b where
    b: "bounding_box_of (df_model t) = Inr b" and
    r: "column_extremes (df_model t) ''longitude'' (lon_min b) (lon_max b)"
       "column_extremes (df_model t) ''latitude'' (lat_min b) (lat_max b)"
       "list_all (\<lambda>x. lon_min b \<le> x \<and> x \<le> lon_max b) (fst (draw_coordinates b halves))"
       "list_all (sampled_in_box t b) fut"
    by blast
  have "b = example_box" using b by (simp add: dm example_bounds)
  then show ?thesis using t p unit_samples_halves b r by blast
qed

section \<open>The generator is not seeded\<close>

lemma example_scaler:
  "scaler_fit [[Fin (-1.3), Fin 0.7], [Fin 52.7, Fin 54.7]]
     = Inr \<lparr>fitted_mean = [Some (-0.3), Some 53.7], fitted_scale = [Some 1, Some 1]\<rparr>"
  by (simp add: scaler_fit_def check_array_def bind_err_def nanmean_def nanvar_def
      column_scale_def observed_def Let_def)

lemma example_first_longitude:
  assumes "main example_lib raw_training g = Inr (fut, g')"
  shows "fut \<noteq> [] \<and> longitude (hd fut) = Some (2 * g 0 - 1)"
proof -
  from main_Inr[OF assms] obtain df t b fl where
    c: "clean example_lib raw_training = Inr df" and t: "train_model example_lib df = Inr t" and
    b: "bounding_box_of (df_model t) = Inr b" and
    l: "future_loop t b periods g = Inr (fl, g')" and fut: "fut = concat fl"
    by blast
  have df: "df = cleaned_training" using c by (simp add: clean_training)
  from example_trained t have dm: "df_model t = model_frame_example" by (auto simp: df)
  have bx: "b = example_box" using b by (simp add: dm example_bounds)
  from train_model_Inr[OF t] obtain lon lat lons lats where
    plon: "positions (columns (df_model t)) ''longitude'' = [lon]" and
    plat: "positions (columns (df_model t)) ''latitude'' = [lat]" and
    lons: "map_err (as_float example_lib) (column (df_model t) lon) = Inr lons" and
    lats: "map_err (as_float example_lib) (column (df_model t) lat) = Inr lats" and
    sc: "scaler_fit [lons, lats] = Inr (scaler t)"
    by blast
  have sf: "select_features model_frame_example = Inr [4, 5, 2, 3, 10]" by (rule example_steps(4))
  from select_features_Inr[OF sf] have "lon = 4" "lat = 5" using plon plat by (simp_all add: dm)
  then have "lons = [Fin (-1.3), Fin 0.7]" "lats = [Fin 52.7, Fin 54.7]"
    using lons lats by (simp_all add: dm example_steps(8,9))
  then have sct: "scaler t = \<lparr>fitted_mean = [Some (-0.3), Some 53.7], fitted_scale = [Some 1, Some 1]\<rparr>"
    using sc by (simp add: example_scaler)
  from l obtain d g1 rest where
    p: "period t b 1 g = Inr (d, g1)" and fl: "fl = d # rest"
    by (auto simp: periods_eq bind_err_def split: sum.splits)
  from period_Inr[OF p] obtain m1 s1 m2 s2 where
    ms: "fitted_mean (scaler t) = [m1, m2]" "take 2 (fitted_scale (scaler t)) = [s1, s2]" and
    lo: "map longitude d = map (\<lambda>x. standardize m1 s1 (Some x)) (fst (draw_coordinates b g))" and
    len: "length d = n_samples"
    by blast
  have m1: "m1 = Some (-0.3)" "s1 = Some 1" using ms by (simp_all add: sct)
  have dne: "d \<noteq> []" using len n_samples_pos by auto
  have "longitude (d ! 0) = standardize m1 s1 (Some (fst (draw_coordinates b g) ! 0))"
    using arg_cong[OF lo, of "\<lambda>l. l ! 0"] len n_samples_pos by (simp add: length_draws)
  moreover have "fst (draw_coordinates b g) ! 0 = -1.3 + 2 * g 0"
    using n_samples_pos by (simp add: draw_coordinates_eq uniform_def bx example_box_def)
  ultimately have "longitude (d ! 0) = Some (2 * g 0 - 1)"
    by (simp add: m1 standardize_def)
  then show ?thesis using dne by (simp add: fut fl hd_conv_nth nth_append)
qed

text \<open>
  Claim C1. The program seeds the forest and the map sample with 42 but never the
  generator that \<open>np.random.uniform\<close> draws from, so the state of that generator where
  the loop starts is not fixed by the data set. On the same raw table, two states give
  two different future-incident collections.
\<close>

theorem unseeded_runs_differ:
  "returns (main example_lib raw_training zeros) \<and>
   returns (main example_lib raw_training halves) \<and>
   collection_of (main example_lib raw_training zeros)
     \<noteq> collection_of (main example_lib raw_training halves)"
proof -
  from main_example[of zeros] obtain fz gz where
    z: "main example_lib raw_training zeros = Inr (fz, gz)" by blast
  from main_example[of halves] obtain fh gh where
    h: "main example_lib raw_training halves = Inr (fh, gh)" by blast
  have "longitude (hd fz) = Some (-1)"
    using example_first_longitude[OF z] by (simp add: zeros_def)
  moreover have "longitude (hd fh) = Some 0"
    using example_first_longitude[OF h] by (simp add: halves_def)
  ultimately have "fz \<noteq> fh" by auto
  then show ?thesis by (simp add: z h returns_def collection_of_def)
qed

end
